theory Spec2Isabelle
  imports Main "HOL-Library.Word"
begin

section \<open>The light action of the Stream Deck plugin (src/actions/light.ts)\<close>

text \<open>
  The plugin reacts to key events of one Stream Deck button: a short press starts the
  external colour picker and sends the picked colour to the configured lights, a long
  press sends the stored colour again. This theory embeds the settings record, the
  helper functions \<open>setTitle\<close>, \<open>createPngBase64\<close> and \<open>changeLampColor\<close>, and the handlers
  \<open>onKeyDown\<close> and \<open>onKeyUp\<close> of the class \<open>Light\<close>.

  The source file also holds an earlier variant of the action (a fixed delay of 200 ms,
  one light taken from environment variables); the variant with per-button settings is
  the one embedded here.

  Scope of the model.
  \<^item> The colour picked is whatever \<open>JSON.parse\<close> returns: \<open>null\<close>, a boolean, a number, a
    string, an array or an object. The code passes it on unchecked, so the conversions
    that JavaScript applies to such a value are part of the model.
  \<^item> JavaScript numbers are modelled as \<open>int\<close> (plus \<open>NaN\<close> where the code can produce it):
    the model is exact for integer values of magnitude below \<open>2 ^ 53\<close>; fractional numbers
    are outside it.
  \<^item> Strings are \<open>char list\<close> over ASCII.
  \<^item> The host (\<open>getSettings\<close>, \<open>setSettings\<close>, \<open>setTitle\<close>, \<open>setImage\<close>), the child process
    \<open>pick-color.exe\<close>, \<open>JSON.parse\<close>, \<open>fetch\<close>, \<open>PNG.sync.write\<close> and
    \<open>Buffer.toString("base64")\<close> are not part of the repository. The host is a store with
    a log of the calls made; the others are parameters collected in the record \<open>runtime\<close>.
    So is the conversion of a string to a number, whose result is a floating-point value.
\<close>

subsection \<open>JSON values\<close>

text \<open>
  A value as \<open>JSON.parse\<close> builds it. An object is the list of its members in the order of
  the text; where a key occurs twice the later member is the property.
\<close>

datatype json =
    JNull
  | JBool bool
  | JNum int
  | JStr string
  | JArr "json list"
  | JObj "(string \<times> json) list"

subsection \<open>Settings\<close>

text \<open>
  \<open>type LightSettings\<close>. The code tests \<open>settings.colorHex\<close> and \<open>settings.colorRgb\<close> for
  truthiness, so an absent \<open>colorRgb\<close> is \<open>None\<close> and an absent \<open>colorHex\<close> is the empty string.
  \<open>colorRgb\<close> is declared \<open>number[]\<close>, but \<open>onKeyUp\<close> stores in it whatever the picker output
  parsed to. \<open>showValue\<close> is compared against string literals with \<open>===\<close> and is kept as a
  string.
\<close>

record settings =
  colorHex :: string
  colorRgb :: "json option"
  isDown :: bool
  longPress :: bool
  delay :: nat
  showValue :: string
  lights :: string
  url :: string
  token :: string

subsection \<open>Requests, effects and the host\<close>

text \<open>
  The object handed to \<open>JSON.stringify\<close> in \<open>changeLampColor\<close>. A property whose value is
  \<open>undefined\<close> (here \<open>None\<close>) is left out of the serialised text.
\<close>

record body =
  entity_id :: "string option"
  rgb_color :: "json option"

record request =
  req_url :: string
  req_method :: string
  req_headers :: "(string \<times> string) list"
  req_body :: body

text \<open>The calls a handler makes to the outside, in the order it makes them.\<close>

datatype effect =
    SetSettings settings
  | ExecFile string
  | Fetch request
  | SetTitle string
  | SetImage string

text \<open>
  How the promise chain \<open>fetch(...).then(r => r.json()).then(...)\<close> of one request ends:
  \<open>fetch\<close> rejects, \<open>response.json()\<close> rejects, or both resolve.
\<close>

datatype fetch_outcome = NetworkError | InvalidJson | Json

text \<open>
  What \<open>await execFileAsync("pick-color.exe")\<close> followed by \<open>JSON.parse(stdout.trim())\<close>
  yields: the process fails (the promise rejects), its output is not JSON (\<open>JSON.parse\<close>
  throws), or the output parses to a value.
\<close>

datatype picked = ExecFailed | ParseFailed | Parsed json

datatype error = ExecError | SyntaxError | TypeError

datatype outcome = Resolved | Rejected error

record png =
  width :: nat
  height :: nat
  data :: "8 word list"

text \<open>
  \<open>string_to_int32 s\<close> is \<open>ToInt32\<close> of the number that the string \<open>s\<close> converts to
  (\<open>StringToNumber\<close> of the language, for instance 5 for \<open>"5"\<close> and 0 for \<open>"x"\<close>).
\<close>

record runtime =
  pick :: picked
  http :: "request \<Rightarrow> fetch_outcome"
  png_write :: "png \<Rightarrow> 8 word list"
  base64 :: "8 word list \<Rightarrow> string"
  string_to_int32 :: "string \<Rightarrow> int"

text \<open>
  The host: the persisted settings of the button, the calls made so far, and the lines
  written by \<open>console.error\<close>. Messages to the host are processed in the order sent, so
  \<open>setSettings\<close> takes effect at once. The \<open>console\<close> lines come from promise callbacks that
  run after the handler; they are listed in the order of their requests.
\<close>

record host =
  stored :: settings
  trace :: "effect list"
  console :: "string list"

definition getSettings :: "host \<Rightarrow> settings" where
  "getSettings h = stored h"

definition setSettings :: "settings \<Rightarrow> host \<Rightarrow> host" where
  "setSettings s h = h\<lparr>stored := s, trace := trace h @ [SetSettings s]\<rparr>"

definition action_setTitle :: "string \<Rightarrow> host \<Rightarrow> host" where
  "action_setTitle t h = h\<lparr>trace := trace h @ [SetTitle t]\<rparr>"

definition setImage :: "string \<Rightarrow> host \<Rightarrow> host" where
  "setImage img h = h\<lparr>trace := trace h @ [SetImage img]\<rparr>"

definition execFile :: "string \<Rightarrow> host \<Rightarrow> host" where
  "execFile file h = h\<lparr>trace := trace h @ [ExecFile file]\<rparr>"

text \<open>
  One \<open>fetch(...).then(...).then(...).catch(error => console.error("Error:", error))\<close>:
  the request is issued; a rejection anywhere in the chain ends in the \<open>catch\<close> callback.
\<close>

definition fetch :: "runtime \<Rightarrow> request \<Rightarrow> host \<Rightarrow> host" where
  "fetch rt req h =
     h\<lparr>trace := trace h @ [Fetch req],
       console := console h @ (case http rt req of
                                 NetworkError \<Rightarrow> [''Error:'']
                               | InvalidJson \<Rightarrow> [''Error:'']
                               | Json \<Rightarrow> [])\<rparr>"

subsection \<open>changeLampColor\<close>

text \<open>
  \<open>settings.lights.split(/,( )?/)\<close>. \<open>String.prototype.split\<close> with a regular expression
  scans the string from the left; at each match it emits the text since the previous
  match and then the value of every capture group of the separator, \<open>undefined\<close> for a
  group that did not take part in the match; at the end it emits the remaining text.
  The separator here is a comma followed by an optional captured space. \<open>piece\<close> is the
  text since the previous match.
\<close>

fun split_from :: "string \<Rightarrow> string \<Rightarrow> string option list" where
  "split_from piece [] = [Some piece]"
| "split_from piece (c # cs) =
     (if c = CHR '','' then
        (case cs of
           [] \<Rightarrow> Some piece # None # split_from [] []
         | d # ds \<Rightarrow>
             if d = CHR '' '' then Some piece # Some '' '' # split_from [] ds
             else Some piece # None # split_from [] cs)
      else split_from (piece @ [c]) cs)"

definition split_lights :: "string \<Rightarrow> string option list" where
  "split_lights s = split_from [] s"

definition light_request :: "json option \<Rightarrow> settings \<Rightarrow> string option \<Rightarrow> request" where
  "light_request color settings light =
     \<lparr>req_url = url settings @ ''/api/services/light/turn_on'',
      req_method = ''POST'',
      req_headers = [(''Authorization'', ''Bearer '' @ token settings),
                     (''Content-Type'', ''application/json'')],
      req_body = \<lparr>entity_id = light, rgb_color = color\<rparr>\<rparr>"

definition changeLampColor :: "runtime \<Rightarrow> json option \<Rightarrow> settings \<Rightarrow> host \<Rightarrow> host" where
  "changeLampColor rt color settings h =
     fold (\<lambda>light. fetch rt (light_request color settings light))
          (split_lights (lights settings)) h"

subsection \<open>Numbers and strings of the JavaScript runtime\<close>

text \<open>
  A number as the code meets it: an integer, or \<open>NaN\<close> (from an arithmetic operation on
  \<open>undefined\<close>). Reading an array beyond its length gives \<open>undefined\<close>, here \<open>None\<close>.
\<close>

datatype jsnum = NaN | Num int

definition at_index :: "'a list \<Rightarrow> nat \<Rightarrow> 'a option" where
  "at_index xs i = (if i < length xs then Some (xs ! i) else None)"

text \<open>\<open>ToInt32\<close>: \<open>NaN\<close> becomes 0, an integer is reduced modulo \<open>2 ^ 32\<close> into the signed range.\<close>

definition to_int32 :: "jsnum \<Rightarrow> int" where
  "to_int32 v = (case v of NaN \<Rightarrow> 0 | Num x \<Rightarrow> (x + 2 ^ 31) mod 2 ^ 32 - 2 ^ 31)"

text \<open>\<open>a << n\<close> on a number \<open>a\<close>: the shift count is taken modulo 32.\<close>

definition js_shl :: "jsnum \<Rightarrow> nat \<Rightarrow> int" where
  "js_shl a n = to_int32 (Num (to_int32 a * 2 ^ (n mod 32)))"

definition digit_char :: "nat \<Rightarrow> char" where
  "digit_char n = ''0123456789abcdefghijklmnopqrstuvwxyz'' ! n"

function digits :: "nat \<Rightarrow> nat \<Rightarrow> string" where
  "digits radix n =
     (if radix < 2 \<or> n < radix then [digit_char n]
      else digits radix (n div radix) @ [digit_char (n mod radix)])"
  by pat_completeness auto
termination
  by (relation "measure (\<lambda>(radix, n). n)") auto

declare digits.simps [simp del]

text \<open>\<open>Number.prototype.toString(radix)\<close>, for a radix from 2 to 36.\<close>

definition number_toString :: "jsnum \<Rightarrow> nat \<Rightarrow> string" where
  "number_toString v radix =
     (case v of
        NaN \<Rightarrow> ''NaN''
      | Num x \<Rightarrow> if x < 0 then ''-'' @ digits radix (nat (- x)) else digits radix (nat x))"

text \<open>\<open>String.prototype.toUpperCase\<close> on ASCII text.\<close>

definition upper_char :: "char \<Rightarrow> char" where
  "upper_char c =
     (case map_of (zip ''abcdefghijklmnopqrstuvwxyz'' ''ABCDEFGHIJKLMNOPQRSTUVWXYZ'') c of
        None \<Rightarrow> c
      | Some u \<Rightarrow> u)"

definition toUpperCase :: "string \<Rightarrow> string" where
  "toUpperCase s = map upper_char s"

subsection \<open>Conversions of a JSON value\<close>

text \<open>
  An object built by \<open>JSON.parse\<close> has the methods of \<open>Object.prototype\<close> unless a member of
  its own hides them; such a member is never a function.
\<close>

definition has_key :: "(string \<times> json) list \<Rightarrow> string \<Rightarrow> bool" where
  "has_key members k = (k \<in> set (map fst members))"

text \<open>
  \<open>ToString\<close>. An array is converted by \<open>Array.prototype.join\<close>: its elements, converted in
  turn, with commas between them, where \<open>null\<close> gives the empty string. An object gives
  \<open>[object Object]\<close>; if it has a member \<open>toString\<close> of its own, no callable conversion is
  left and a \<open>TypeError\<close> is thrown.
\<close>

fun js_toString :: "json \<Rightarrow> error + string"
  and join_elements :: "json list \<Rightarrow> error + string" where
  "js_toString JNull = Inr ''null''"
| "js_toString (JBool b) = Inr (if b then ''true'' else ''false'')"
| "js_toString (JNum n) = Inr (number_toString (Num n) 10)"
| "js_toString (JStr s) = Inr s"
| "js_toString (JArr xs) = join_elements xs"
| "js_toString (JObj members) =
     (if has_key members ''toString'' then Inl TypeError else Inr ''[object Object]'')"
| "join_elements [] = Inr []"
| "join_elements (x # xs) =
     (case (if x = JNull then Inr [] else js_toString x) of
        Inl e \<Rightarrow> Inl e
      | Inr s \<Rightarrow>
          if xs = [] then Inr s
          else (case join_elements xs of
                  Inl e \<Rightarrow> Inl e
                | Inr t \<Rightarrow> Inr (s @ '','' @ t)))"

text \<open>
  \<open>ToPrimitive\<close>: a primitive value stays; an array or an object becomes the string
  \<open>ToString\<close> gives for it (their \<open>valueOf\<close> returns the object itself), or throws as it does.
\<close>

datatype prim = PNull | PBool bool | PNum int | PStr string

definition to_primitive :: "json \<Rightarrow> error + prim" where
  "to_primitive v =
     (case v of
        JNull \<Rightarrow> Inr PNull
      | JBool b \<Rightarrow> Inr (PBool b)
      | JNum n \<Rightarrow> Inr (PNum n)
      | JStr s \<Rightarrow> Inr (PStr s)
      | JArr xs \<Rightarrow> (case js_toString v of Inl e \<Rightarrow> Inl e | Inr s \<Rightarrow> Inr (PStr s))
      | JObj members \<Rightarrow> (case js_toString v of Inl e \<Rightarrow> Inl e | Inr s \<Rightarrow> Inr (PStr s)))"

text \<open>
  \<open>ToNumber\<close> of a primitive value, as far as a shift or a store into a byte array uses
  it: reduced by \<open>ToInt32\<close>.
\<close>

definition prim_int32 :: "runtime \<Rightarrow> prim \<Rightarrow> int" where
  "prim_int32 rt p =
     (case p of
        PNull \<Rightarrow> 0
      | PBool b \<Rightarrow> (if b then 1 else 0)
      | PNum n \<Rightarrow> to_int32 (Num n)
      | PStr s \<Rightarrow> to_int32 (Num (string_to_int32 rt s)))"

text \<open>\<open>v << n\<close> for a value \<open>v\<close> read from the colour; \<open>None\<close> is \<open>undefined\<close>.\<close>

definition shl_value :: "runtime \<Rightarrow> json option \<Rightarrow> nat \<Rightarrow> error + int" where
  "shl_value rt v n =
     (case v of
        None \<Rightarrow> Inr (js_shl NaN n)
      | Some j \<Rightarrow>
          (case to_primitive j of
             Inl e \<Rightarrow> Inl e
           | Inr p \<Rightarrow> Inr (js_shl (Num (prim_int32 rt p)) n)))"

text \<open>
  \<open>i + v\<close> for a number \<open>i\<close> and a value \<open>v\<close> read from the colour: if \<open>v\<close> converts to a
  string the two are concatenated, otherwise they are added as numbers.
\<close>

datatype sum_result = Number jsnum | Text string

definition js_plus :: "int \<Rightarrow> json option \<Rightarrow> error + sum_result" where
  "js_plus i v =
     (case v of
        None \<Rightarrow> Inr (Number NaN)
      | Some j \<Rightarrow>
          (case to_primitive j of
             Inl e \<Rightarrow> Inl e
           | Inr PNull \<Rightarrow> Inr (Number (Num i))
           | Inr (PBool b) \<Rightarrow> Inr (Number (Num (i + (if b then 1 else 0))))
           | Inr (PNum n) \<Rightarrow> Inr (Number (Num (i + n)))
           | Inr (PStr s) \<Rightarrow> Inr (Text (number_toString (Num i) 10 @ s))))"

text \<open>
  \<open>.toString(16)\<close> on the sum: a number is written in base 16, a string is returned as it
  is (\<open>String.prototype.toString\<close> takes no radix).
\<close>

definition toString16 :: "sum_result \<Rightarrow> string" where
  "toString16 v = (case v of Number x \<Rightarrow> number_toString x 16 | Text s \<Rightarrow> s)"

text \<open>
  \<open>color[i]\<close>: reading a property of \<open>null\<close> throws; a boolean or a number has no such
  property; a string gives its character, an array its element, an object its member
  with the key \<open>i\<close> in decimal.
\<close>

definition get_index :: "json \<Rightarrow> nat \<Rightarrow> error + json option" where
  "get_index v i =
     (case v of
        JNull \<Rightarrow> Inl TypeError
      | JBool b \<Rightarrow> Inr None
      | JNum n \<Rightarrow> Inr None
      | JStr s \<Rightarrow> Inr (map_option (\<lambda>c. JStr [c]) (at_index s i))
      | JArr xs \<Rightarrow> Inr (at_index xs i)
      | JObj members \<Rightarrow> Inr (map_of (rev members) (number_toString (Num (int i)) 10)))"

text \<open>The test \<open>if (v)\<close> on a property that may be absent.\<close>

definition truthy :: "json option \<Rightarrow> bool" where
  "truthy v =
     (case v of
        None \<Rightarrow> False
      | Some JNull \<Rightarrow> False
      | Some (JBool b) \<Rightarrow> b
      | Some (JNum n) \<Rightarrow> n \<noteq> 0
      | Some (JStr s) \<Rightarrow> s \<noteq> []
      | Some (JArr xs) \<Rightarrow> True
      | Some (JObj members) \<Rightarrow> True)"

text \<open>Sequencing: a thrown error ends the evaluation.\<close>

definition and_then :: "error + 'a \<Rightarrow> ('a \<Rightarrow> error + 'b) \<Rightarrow> error + 'b" where
  "and_then m f = (case m of Inl e \<Rightarrow> Inl e | Inr x \<Rightarrow> f x)"

subsection \<open>setTitle\<close>

text \<open>
  \<open>change\<close> is the callback \<open>ev.action.setTitle.bind(ev.action)\<close>. The call
  \<open>settings.colorRgb.toString()\<close> gives what \<open>ToString\<close> gives for the value, and throws where
  the value is an object whose own member \<open>toString\<close> is not a function.
\<close>

definition setTitle :: "settings \<Rightarrow> (string \<Rightarrow> 'a) \<Rightarrow> error + 'a" where
  "setTitle settings change =
     (if showValue settings = ''hex'' \<and> colorHex settings \<noteq> [] then
        Inr (change (colorHex settings))
      else if showValue settings = ''rgb'' \<and> truthy (colorRgb settings) then
        and_then (js_toString (the (colorRgb settings))) (\<lambda>t. Inr (change t))
      else Inr (change ''Color\<newline>Picker''))"

subsection \<open>The hex string of the short press\<close>

text \<open>
  The expression bound to \<open>hex\<close> in \<open>onKeyUp\<close>, evaluated from left to right:
  \<open>"#" + ((1 << 24) + (color[0] << 16) + (color[1] << 8) + color[2]).toString(16).slice(1).toUpperCase()\<close>.
  The first two sums are sums of 32-bit integers.
\<close>

definition hex_of_color :: "runtime \<Rightarrow> json \<Rightarrow> error + string" where
  "hex_of_color rt color =
     and_then (get_index color 0) (\<lambda>c0.
     and_then (shl_value rt c0 16) (\<lambda>a.
     and_then (get_index color 1) (\<lambda>c1.
     and_then (shl_value rt c1 8) (\<lambda>b.
     and_then (get_index color 2) (\<lambda>c2.
     and_then (js_plus (js_shl (Num 1) 24 + a + b) c2) (\<lambda>s.
       Inr (''#'' @ toUpperCase (drop 1 (toString16 s)))))))))"

text \<open>
  The formula as the specification words it, for channels from 0 to 255: \<open>#\<close> followed by
  the two-digit uppercase hexadecimal form of each channel.
\<close>

definition upper_hex_digit :: "nat \<Rightarrow> char" where
  "upper_hex_digit n = ''0123456789ABCDEF'' ! n"

definition two_digit_hex :: "int \<Rightarrow> string" where
  "two_digit_hex x = [upper_hex_digit (nat x div 16), upper_hex_digit (nat x mod 16)]"

definition spec_hex :: "int \<Rightarrow> int \<Rightarrow> int \<Rightarrow> string" where
  "spec_hex r g b = ''#'' @ two_digit_hex r @ two_digit_hex g @ two_digit_hex b"

definition channel :: "int \<Rightarrow> bool" where
  "channel x = (0 \<le> x \<and> x \<le> 255)"

text \<open>The channels of a value that is an array of three integers from 0 to 255.\<close>

fun channels_of :: "json \<Rightarrow> (int \<times> int \<times> int) option" where
  "channels_of (JArr [JNum r, JNum g, JNum b]) =
     (if channel r \<and> channel g \<and> channel b then Some (r, g, b) else None)"
| "channels_of _ = None"

definition valid_rgb :: "json \<Rightarrow> bool" where
  "valid_rgb c = (channels_of c \<noteq> None)"

subsection \<open>createPngBase64\<close>

text \<open>
  The parameter pattern \<open>[r, g, b]\<close> iterates over the argument: an array yields its
  elements, a string its characters, and any other value is not iterable.
\<close>

definition elements :: "json \<Rightarrow> error + json list" where
  "elements v =
     (case v of
        JArr xs \<Rightarrow> Inr xs
      | JStr s \<Rightarrow> Inr (map (\<lambda>c. JStr [c]) s)
      | JNull \<Rightarrow> Inl TypeError
      | JBool b \<Rightarrow> Inl TypeError
      | JNum n \<Rightarrow> Inl TypeError
      | JObj members \<Rightarrow> Inl TypeError)"

text \<open>
  \<open>png.data\<close> is a \<open>Buffer\<close>: a store converts the value to a number and the number to a
  byte (\<open>undefined\<close> becomes 0, an integer is reduced modulo 256), and a store outside the
  buffer is ignored.
\<close>

definition to_uint8 :: "runtime \<Rightarrow> json option \<Rightarrow> error + 8 word" where
  "to_uint8 rt v =
     (case v of
        None \<Rightarrow> Inr 0
      | Some j \<Rightarrow> and_then (to_primitive j) (\<lambda>p. Inr (word_of_int (prim_int32 rt p))))"

definition store :: "runtime \<Rightarrow> 8 word list \<Rightarrow> int \<Rightarrow> json option \<Rightarrow> error + 8 word list" where
  "store rt d i v =
     and_then (to_uint8 rt v) (\<lambda>w.
       Inr (if 0 \<le> i \<and> nat i < length d then d[nat i := w] else d))"

text \<open>The body of the inner loop, at column \<open>x\<close> of row \<open>y\<close> of an image \<open>w\<close> pixels wide.\<close>

definition fill_pixel ::
  "runtime \<Rightarrow> nat \<Rightarrow> json option \<Rightarrow> json option \<Rightarrow> json option \<Rightarrow> nat \<Rightarrow> nat \<Rightarrow>
     8 word list \<Rightarrow> error + 8 word list" where
  "fill_pixel rt w r g b y x d =
     (let idx = js_shl (Num (int (w * y + x))) 2
      in and_then (store rt d idx r) (\<lambda>d1.
         and_then (store rt d1 (idx + 1) g) (\<lambda>d2.
         and_then (store rt d2 (idx + 2) b) (\<lambda>d3.
           store rt d3 (idx + 3) (Some (JNum 255))))))"

text \<open>
  \<open>for (let x = 0; x < width; x++)\<close> and \<open>for (let y = 0; y < height; y++)\<close>; an error
  thrown by a store leaves both loops.
\<close>

definition fill_row ::
  "runtime \<Rightarrow> nat \<Rightarrow> json option \<Rightarrow> json option \<Rightarrow> json option \<Rightarrow> nat \<Rightarrow>
     8 word list \<Rightarrow> error + 8 word list" where
  "fill_row rt w r g b y d =
     fold (\<lambda>x acc. and_then acc (fill_pixel rt w r g b y x)) [0..<w] (Inr d)"

definition fill ::
  "runtime \<Rightarrow> nat \<Rightarrow> nat \<Rightarrow> json option \<Rightarrow> json option \<Rightarrow> json option \<Rightarrow>
     8 word list \<Rightarrow> error + 8 word list" where
  "fill rt w h r g b d =
     fold (\<lambda>y acc. and_then acc (fill_row rt w r g b y)) [0..<h] (Inr d)"

text \<open>
  \<open>new PNG({width, height, colorType: 2})\<close> of pngjs allocates a zeroed buffer of four
  bytes for each pixel. The option \<open>colorType: 2\<close> concerns the encoder only, which is a
  parameter here.
\<close>

definition new_PNG :: "nat \<Rightarrow> nat \<Rightarrow> png" where
  "new_PNG w h = \<lparr>width = w, height = h, data = replicate (4 * w * h) 0\<rparr>"

definition createPngBase64 :: "runtime \<Rightarrow> json \<Rightarrow> error + string" where
  "createPngBase64 rt color =
     and_then (elements color) (\<lambda>els.
       let r = at_index els 0;
           g = at_index els 1;
           b = at_index els 2;
           png = new_PNG 128 128
       in and_then (fill rt 128 128 r g b (data png)) (\<lambda>d.
            let buffer = png_write rt (png\<lparr>data := d\<rparr>)
            in Inr (''data:image/png;base64,'' @ base64 rt buffer)))"

subsection \<open>The handlers\<close>

text \<open>
  \<open>onKeyDown\<close> runs in two parts: up to the timer, and from the timer's firing on.
  Between them the host may serve other handlers; \<open>during\<close> is what they do to the host.
\<close>

definition onKeyDown_begin :: "host \<Rightarrow> host" where
  "onKeyDown_begin h =
     (let settings = getSettings h
      in setSettings (settings\<lparr>isDown := True\<rparr>) h)"

definition onKeyDown_timer :: "runtime \<Rightarrow> host \<Rightarrow> outcome \<times> host" where
  "onKeyDown_timer rt h =
     (let settings = getSettings h
      in if \<not> isDown settings then (Resolved, h)
         else
           (let h1 = setSettings (settings\<lparr>longPress := True\<rparr>) h;
                h2 = changeLampColor rt (colorRgb settings) settings h1
            in (Resolved, h2)))"

definition onKeyDown :: "runtime \<Rightarrow> (host \<Rightarrow> host) \<Rightarrow> host \<Rightarrow> outcome \<times> host" where
  "onKeyDown rt during h = onKeyDown_timer rt (during (onKeyDown_begin h))"

text \<open>
  \<open>onKeyUp\<close> reads the settings once, at entry, and writes from that copy only, so what it
  writes does not depend on other handlers served while it waits. Nothing in it catches
  an error: the handler rejects where one is thrown, with the host as it is by then.
\<close>

definition onKeyUp :: "runtime \<Rightarrow> host \<Rightarrow> outcome \<times> host" where
  "onKeyUp rt h =
     (let settings = getSettings h;
          h1 = setSettings (settings\<lparr>isDown := False\<rparr>) h
      in if \<not> longPress settings then
           (let h2 = execFile ''pick-color.exe'' h1
            in case pick rt of
                 ExecFailed \<Rightarrow> (Rejected ExecError, h2)
               | ParseFailed \<Rightarrow> (Rejected SyntaxError, h2)
               | Parsed color \<Rightarrow>
                   (let h3 = changeLampColor rt (Some color) settings h2
                    in case hex_of_color rt color of
                         Inl e \<Rightarrow> (Rejected e, h3)
                       | Inr hex \<Rightarrow>
                           (let h4 = setSettings (settings\<lparr>isDown := False, colorHex := hex,
                                                      longPress := False,
                                                      colorRgb := Some color\<rparr>) h3
                            in case setTitle settings (\<lambda>t. action_setTitle t h4) of
                                 Inl e \<Rightarrow> (Rejected e, h4)
                               | Inr h5 \<Rightarrow>
                                   (case createPngBase64 rt color of
                                      Inl e \<Rightarrow> (Rejected e, h5)
                                    | Inr img \<Rightarrow> (Resolved, setImage img h5)))))
         else (Resolved, setSettings (settings\<lparr>longPress := False\<rparr>) h1))"

subsection \<open>Reading the log\<close>

text \<open>The calls made between two states of the host, and the settings records among them.\<close>

definition issued :: "host \<Rightarrow> host \<Rightarrow> effect list" where
  "issued h h' = drop (length (trace h)) (trace h')"

fun writes :: "effect list \<Rightarrow> settings list" where
  "writes [] = []"
| "writes (SetSettings s # es) = s # writes es"
| "writes (e # es) = writes es"

fun fetches :: "effect list \<Rightarrow> request list" where
  "fetches [] = []"
| "fetches (Fetch r # es) = r # fetches es"
| "fetches (e # es) = fetches es"

definition same_colors :: "settings \<Rightarrow> settings \<Rightarrow> bool" where
  "same_colors w s = (colorHex w = colorHex s \<and> colorRgb w = colorRgb s)"

text \<open>
  \<open>colorHex\<close> is what the specification's formula gives for \<open>colorRgb\<close>; the formula is stated
  for triples of channels from 0 to 255.
\<close>

definition hex_derivable :: "settings \<Rightarrow> bool" where
  "hex_derivable w =
     (case colorRgb w of
        None \<Rightarrow> False
      | Some c \<Rightarrow>
          (case channels_of c of
             None \<Rightarrow> False
           | Some (r, g, b) \<Rightarrow> colorHex w = spec_hex r g b))"

text \<open>\<open>colorHex\<close> is what the expression of \<open>onKeyUp\<close> gives for \<open>colorRgb\<close>.\<close>

definition hex_computed :: "runtime \<Rightarrow> settings \<Rightarrow> bool" where
  "hex_computed rt w =
     (case colorRgb w of
        None \<Rightarrow> False
      | Some c \<Rightarrow> hex_of_color rt c = Inr (colorHex w))"

text \<open>What the picker returned is a triple of channels.\<close>

fun valid_pick :: "picked \<Rightarrow> bool" where
  "valid_pick (Parsed c) = valid_rgb c"
| "valid_pick _ = False"

text \<open>The pixel at column \<open>x\<close> of row \<open>y\<close> of a bitmap: red, green, blue, alpha.\<close>

definition pixel :: "png \<Rightarrow> nat \<Rightarrow> nat \<Rightarrow> int \<times> int \<times> int \<times> int" where
  "pixel p x y =
     (let i = 4 * (width p * y + x)
      in (uint (data p ! i), uint (data p ! (i + 1)), uint (data p ! (i + 2)),
          uint (data p ! (i + 3))))"

text \<open>The four stores of \<open>fill_pixel\<close> at pixel number \<open>k\<close>, as list updates.\<close>

definition put :: "8 word \<Rightarrow> 8 word \<Rightarrow> 8 word \<Rightarrow> nat \<Rightarrow> 8 word list \<Rightarrow> 8 word list" where
  "put r g b k d = d[4 * k := r, 4 * k + 1 := g, 4 * k + 2 := b, 4 * k + 3 := 255]"

text \<open>The bitmap of \<open>w\<close> by \<open>h\<close> pixels, every pixel \<open>r\<close>, \<open>g\<close>, \<open>b\<close> with alpha 255.\<close>

definition solid :: "nat \<Rightarrow> nat \<Rightarrow> 8 word \<Rightarrow> 8 word \<Rightarrow> 8 word \<Rightarrow> png" where
  "solid w h r g b = \<lparr>width = w, height = h, data = concat (replicate (w * h) [r, g, b, 255])\<rparr>"

text \<open>
  The loops of \<open>createPngBase64\<close> once the three values are converted to bytes: what
  \<open>fill_pixel\<close>, \<open>fill_row\<close> and \<open>fill\<close> compute when no store throws.
\<close>

definition store_byte :: "8 word list \<Rightarrow> int \<Rightarrow> 8 word \<Rightarrow> 8 word list" where
  "store_byte d i w = (if 0 \<le> i \<and> nat i < length d then d[nat i := w] else d)"

definition fill_pixel_bytes ::
  "nat \<Rightarrow> 8 word \<Rightarrow> 8 word \<Rightarrow> 8 word \<Rightarrow> nat \<Rightarrow> nat \<Rightarrow> 8 word list \<Rightarrow> 8 word list" where
  "fill_pixel_bytes w r g b y x d =
     (let idx = js_shl (Num (int (w * y + x))) 2;
          d1 = store_byte d idx r;
          d2 = store_byte d1 (idx + 1) g;
          d3 = store_byte d2 (idx + 2) b
      in store_byte d3 (idx + 3) 255)"

definition fill_row_bytes ::
  "nat \<Rightarrow> 8 word \<Rightarrow> 8 word \<Rightarrow> 8 word \<Rightarrow> nat \<Rightarrow> 8 word list \<Rightarrow> 8 word list" where
  "fill_row_bytes w r g b y d = fold (fill_pixel_bytes w r g b y) [0..<w] d"

definition fill_bytes ::
  "nat \<Rightarrow> nat \<Rightarrow> 8 word \<Rightarrow> 8 word \<Rightarrow> 8 word \<Rightarrow> 8 word list \<Rightarrow> 8 word list" where
  "fill_bytes w h r g b d = fold (fill_row_bytes w r g b) [0..<h] d"

text \<open>\<open>Array.prototype.toString\<close> on an array of integers: the elements joined by commas.\<close>

fun join :: "string \<Rightarrow> string list \<Rightarrow> string" where
  "join sep [] = []"
| "join sep [x] = x"
| "join sep (x # y # ys) = x @ sep @ join sep (y # ys)"

definition array_toString :: "int list \<Rightarrow> string" where
  "array_toString xs = join '','' (map (\<lambda>x. number_toString (Num x) 10) xs)"

subsection \<open>Sample values\<close>

definition example_settings :: settings where
  "example_settings =
     \<lparr>colorHex = ''#FF0080'', colorRgb = Some (JArr [JNum 255, JNum 0, JNum 128]),
      isDown = True, longPress = False, delay = 200, showValue = ''hex'',
      lights = ''kitchen, bedroom'', url = ''http://homeassistant.local:8123'',
      token = ''secret''\<rparr>"

definition example_host :: "settings \<Rightarrow> host" where
  "example_host s = \<lparr>stored = s, trace = [], console = []\<rparr>"

text \<open>
  A codec standing in for the PNG and base64 libraries where a concrete one is needed:
  the width and the height in unary, then the pixel bytes, one character for each byte.
\<close>

definition raw_write :: "png \<Rightarrow> 8 word list" where
  "raw_write p = replicate (width p) 1 @ [0] @ replicate (height p) 1 @ [0] @ data p"

definition raw_text :: "8 word list \<Rightarrow> string" where
  "raw_text bs = map (\<lambda>w. char_of (unat w)) bs"

definition raw_read :: "string \<Rightarrow> png option" where
  "raw_read s =
     (let bs = map (\<lambda>c. (of_nat (of_char c) :: 8 word)) (drop 22 s);
          w = takeWhile (\<lambda>x. x \<noteq> 0) bs;
          rest = drop (Suc (length w)) bs;
          h = takeWhile (\<lambda>x. x \<noteq> 0) rest;
          d = drop (Suc (length h)) rest
      in Some \<lparr>width = length w, height = length h, data = d\<rparr>)"

text \<open>
  In the sample runtime the request for the entity \<open>" "\<close> fails. No sample converts a string
  to a number, so that conversion is left at 0.
\<close>

definition example_runtime :: "picked \<Rightarrow> runtime" where
  "example_runtime p =
     \<lparr>pick = p,
      http = (\<lambda>req. if entity_id (req_body req) = Some '' '' then NetworkError else Json),
      png_write = raw_write,
      base64 = raw_text,
      string_to_int32 = (\<lambda>s. 0)\<rparr>"

section \<open>Properties\<close>

subsection \<open>The host operations and changeLampColor\<close>

lemmas host_ops = getSettings_def setSettings_def action_setTitle_def setImage_def execFile_def

lemmas example_eval = example_host_def example_settings_def example_runtime_def

lemma trace_fold_fetch:
  "trace (fold (\<lambda>x. fetch rt (f x)) xs h) = trace h @ map (\<lambda>x. Fetch (f x)) xs"
  by (induction xs arbitrary: h) (simp_all add: fetch_def)

lemma stored_fold_fetch: "stored (fold (\<lambda>x. fetch rt (f x)) xs h) = stored h"
  by (induction xs arbitrary: h) (simp_all add: fetch_def)

lemma console_fold_fetch:
  "console (fold (\<lambda>x. fetch rt (f x)) xs h) =
     console h @ concat (map (\<lambda>x. case http rt (f x) of Json \<Rightarrow> [] | _ \<Rightarrow> [''Error:'']) xs)"
  by (induction xs arbitrary: h) (simp_all add: fetch_def split: fetch_outcome.splits)

lemma trace_changeLampColor:
  "trace (changeLampColor rt color settings h) =
     trace h @ map (\<lambda>light. Fetch (light_request color settings light))
                   (split_lights (lights settings))"
  by (simp add: changeLampColor_def trace_fold_fetch)

lemma stored_changeLampColor: "stored (changeLampColor rt color settings h) = stored h"
  by (simp add: changeLampColor_def stored_fold_fetch)

lemma console_changeLampColor:
  "console (changeLampColor rt color settings h) =
     console h @ concat (map (\<lambda>light. case http rt (light_request color settings light) of
                                         Json \<Rightarrow> [] | _ \<Rightarrow> [''Error:''])
                             (split_lights (lights settings)))"
  by (simp add: changeLampColor_def console_fold_fetch)

lemma split_kitchen_bedroom:
  "split_lights ''kitchen, bedroom'' = [Some ''kitchen'', Some '' '', Some ''bedroom'']"
  by (simp add: split_lights_def)

lemma issued_append: "trace h' = trace h @ es \<Longrightarrow> issued h h' = es"
  by (simp add: issued_def)

lemma writes_append: "writes (xs @ ys) = writes xs @ writes ys"
  by (induction xs rule: writes.induct) simp_all

lemma writes_fetches: "writes (map (\<lambda>x. Fetch (f x)) xs) = []"
  by (induction xs) simp_all

lemma fetches_append: "fetches (xs @ ys) = fetches xs @ fetches ys"
  by (induction xs rule: fetches.induct) simp_all

lemma fetches_fetches: "fetches (map (\<lambda>x. Fetch (f x)) xs) = map f xs"
  by (induction xs) simp_all

subsection \<open>Conversions of integers and of arrays of integers\<close>

lemma to_int32_id: "- 2147483648 \<le> x \<Longrightarrow> x < 2147483648 \<Longrightarrow> to_int32 (Num x) = x"
  by (simp add: to_int32_def)

lemma at_index_map: "at_index (map f xs) i = map_option f (at_index xs i)"
  by (simp add: at_index_def)

lemma get_index_array: "get_index (JArr xs) i = Inr (at_index xs i)"
  by (simp add: get_index_def)

lemma shl_value_number:
  "shl_value rt (map_option JNum v) n =
     Inr (js_shl (case v of None \<Rightarrow> NaN | Some x \<Rightarrow> Num (to_int32 (Num x))) n)"
  by (cases v) (simp_all add: shl_value_def to_primitive_def prim_int32_def)

lemma js_plus_number:
  "js_plus i (map_option JNum v) =
     Inr (Number (case v of None \<Rightarrow> NaN | Some x \<Rightarrow> Num (i + x)))"
  by (cases v) (simp_all add: js_plus_def to_primitive_def)

lemma hex_of_color_integers:
  "hex_of_color rt (JArr (map JNum xs)) =
     Inr (''#'' @ toUpperCase (drop 1 (number_toString
       (case at_index xs 2 of
          None \<Rightarrow> NaN
        | Some c \<Rightarrow>
            Num (js_shl (Num 1) 24
                 + js_shl (case at_index xs 0 of None \<Rightarrow> NaN | Some x \<Rightarrow> Num (to_int32 (Num x))) 16
                 + js_shl (case at_index xs 1 of None \<Rightarrow> NaN | Some x \<Rightarrow> Num (to_int32 (Num x))) 8
                 + c)) 16)))"
  by (simp add: hex_of_color_def and_then_def get_index_array at_index_map shl_value_number
      js_plus_number toString16_def split: option.splits)

lemma join_elements_integers:
  "join_elements (map JNum xs) = Inr (join '','' (map (\<lambda>x. number_toString (Num x) 10) xs))"
proof (induction xs)
  case Nil
  then show ?case by simp
next
  case (Cons x xs)
  then show ?case by (cases xs) simp_all
qed

lemma js_toString_integers: "js_toString (JArr (map JNum xs)) = Inr (array_toString xs)"
  by (simp add: join_elements_integers array_toString_def)

lemma to_uint8_number:
  "to_uint8 rt (map_option JNum v) =
     Inr (case v of None \<Rightarrow> 0 | Some x \<Rightarrow> word_of_int (to_int32 (Num x)))"
  by (cases v) (simp_all add: to_uint8_def to_primitive_def prim_int32_def and_then_def)

subsection \<open>The hex string\<close>

lemma js_shl_small:
  assumes "0 \<le> x" "x * 2 ^ n < 2147483648" "n < 32"
  shows "js_shl (Num x) n = x * 2 ^ n"
proof -
  have "x * 1 \<le> x * 2 ^ n" using assms(1) by (intro mult_left_mono) simp_all
  then have "x < 2147483648" using assms(2) by simp
  then have a: "to_int32 (Num x) = x" using assms(1) by (simp add: to_int32_id)
  have "0 \<le> x * 2 ^ n" using assms(1) by simp
  then have "to_int32 (Num (x * 2 ^ n)) = x * 2 ^ n"
    using assms(2) by (intro to_int32_id) simp_all
  then show ?thesis using assms(3) by (simp add: js_shl_def a)
qed

lemma digits16_snoc:
  "0 < m \<Longrightarrow> d < 16 \<Longrightarrow> digits 16 (16 * m + d) = digits 16 m @ [digit_char d]"
  by (subst digits.simps) simp

lemma digits16_one: "digits 16 (Suc 0) = [digit_char (Suc 0)]"
  by (subst digits.simps) simp

lemma upper_digit_all: "\<forall>n<16. upper_char (digit_char n) = upper_hex_digit n"
  by (simp add: eval_nat_numeral All_less_Suc upper_char_def digit_char_def upper_hex_digit_def)

lemma upper_digit: "n < 16 \<Longrightarrow> upper_char (digit_char n) = upper_hex_digit n"
  using upper_digit_all by blast

lemma digits16_byte:
  fixes m R :: nat
  assumes "0 < m" "R < 256"
  shows "digits 16 (256 * m + R) = digits 16 m @ [digit_char (R div 16), digit_char (R mod 16)]"
proof -
  have d: "R div 16 < 16" using assms(2) by (simp add: less_mult_imp_div_less)
  have e: "256 * m + R = 16 * (16 * m + R div 16) + R mod 16" by simp
  have "digits 16 (256 * m + R) = digits 16 (16 * (16 * m + R div 16) + R mod 16)"
    by (subst e) (rule refl)
  also have "\<dots> = digits 16 (16 * m + R div 16) @ [digit_char (R mod 16)]"
    by (rule digits16_snoc) (use assms(1) in simp_all)
  also have "\<dots> = (digits 16 m @ [digit_char (R div 16)]) @ [digit_char (R mod 16)]"
    by (subst digits16_snoc) (use assms(1) d in simp_all)
  finally show ?thesis by simp
qed

lemma digits16_color:
  fixes R G B :: nat
  assumes "R < 256" "G < 256" "B < 256"
  shows "digits 16 (16777216 + R * 65536 + G * 256 + B) =
     map digit_char [1, R div 16, R mod 16, G div 16, G mod 16, B div 16, B mod 16]"
proof -
  have e: "16777216 + R * 65536 + G * 256 + B = 256 * (256 * (256 * 1 + R) + G) + B"
    by simp
  have "digits 16 (16777216 + R * 65536 + G * 256 + B) =
        digits 16 (256 * (256 * (256 * 1 + R) + G) + B)"
    by (subst e) (rule refl)
  also have "\<dots> = digits 16 (256 * (256 * 1 + R) + G) @ [digit_char (B div 16), digit_char (B mod 16)]"
    by (rule digits16_byte) (use assms in simp_all)
  also have "digits 16 (256 * (256 * 1 + R) + G) =
        digits 16 (256 * 1 + R) @ [digit_char (G div 16), digit_char (G mod 16)]"
    by (rule digits16_byte) (use assms in simp_all)
  also have "digits 16 (256 * 1 + R) = digits 16 1 @ [digit_char (R div 16), digit_char (R mod 16)]"
    by (rule digits16_byte) (use assms in simp_all)
  finally show ?thesis by (simp add: digits16_one)
qed

lemma hex_of_color_channels:
  assumes "channel r" "channel g" "channel b"
  shows "hex_of_color rt (JArr [JNum r, JNum g, JNum b]) = Inr (spec_hex r g b)"
proof -
  define R G B where "R = nat r" and "G = nat g" and "B = nat b"
  have rgb: "r = int R" "g = int G" "b = int B" and lt: "R < 256" "G < 256" "B < 256"
    using assms by (auto simp add: channel_def R_def G_def B_def)
  have d: "R div 16 < 16" "G div 16 < 16" "B div 16 < 16"
    using lt by (simp_all add: less_mult_imp_div_less)
  have i: "to_int32 (Num (int R)) = int R" "to_int32 (Num (int G)) = int G"
    using lt by (simp_all add: to_int32_id)
  have s1: "js_shl (Num 1) 24 = 16777216"
    by (simp add: js_shl_def to_int32_def)
  have s2: "js_shl (Num (int R)) 16 = int R * 65536"
    using lt(1) js_shl_small [of "int R" 16] by simp
  have s3: "js_shl (Num (int G)) 8 = int G * 256"
    using lt(2) js_shl_small [of "int G" 8] by simp
  have n: "nat (16777216 + int R * 65536 + int G * 256 + int B) =
      16777216 + R * 65536 + G * 256 + B"
    by (simp add: nat_add_distrib nat_mult_distrib)
  have "hex_of_color rt (JArr [JNum r, JNum g, JNum b]) =
      Inr (''#'' @ toUpperCase (drop 1 (digits 16 (nat (16777216 + int R * 65536 + int G * 256 + int B)))))"
    using hex_of_color_integers [of rt "[r, g, b]"]
    by (simp add: at_index_def i s1 s2 s3 rgb number_toString_def)
  also have "\<dots> = Inr (''#'' @ toUpperCase (drop 1 (digits 16 (16777216 + R * 65536 + G * 256 + B))))"
    by (simp only: n)
  also have "\<dots> = Inr (spec_hex r g b)"
    using d by (simp add: digits16_color lt toUpperCase_def upper_digit spec_hex_def
        two_digit_hex_def rgb)
  finally show ?thesis .
qed

lemmas hex_eval = toUpperCase_def upper_char_def number_toString_def
  js_shl_def to_int32_def at_index_def digits.simps digit_char_def

subsection \<open>The loops of the thumbnail\<close>

lemma length_put: "length (put r g b k d) = length d"
  by (simp add: put_def)

lemma nth_put_at:
  assumes "m < 4" "4 * k + m < length d"
  shows "put r g b k d ! (4 * k + m) = [r, g, b, 255] ! m"
proof -
  have "m = 0 \<or> m = 1 \<or> m = 2 \<or> m = 3" using assms(1) by arith
  then show ?thesis using assms(2) by (elim disjE) (simp_all add: put_def)
qed

lemma nth_put:
  assumes "j < length d"
  shows "put r g b k d ! j = (if j div 4 = k then [r, g, b, 255] ! (j mod 4) else d ! j)"
proof (cases "j div 4 = k")
  case True
  then have j: "4 * k + j mod 4 = j" by auto
  have "put r g b k d ! (4 * k + j mod 4) = [r, g, b, 255] ! (j mod 4)"
    by (rule nth_put_at) (use assms j in simp_all)
  then show ?thesis using True by (simp add: j)
next
  case False
  then have "j \<noteq> 4 * k" "j \<noteq> 4 * k + 1" "j \<noteq> 4 * k + 2" "j \<noteq> 4 * k + 3"
    by auto
  with False show ?thesis by (simp add: put_def)
qed

lemma length_fold_put: "length (fold (put r g b) ks d) = length d"
  by (induction ks arbitrary: d) (simp_all add: length_put)

lemma nth_fold_put:
  "j < length d \<Longrightarrow>
   fold (put r g b) ks d ! j = (if j div 4 \<in> set ks then [r, g, b, 255] ! (j mod 4) else d ! j)"
proof (induction ks arbitrary: d)
  case Nil
  then show ?case by simp
next
  case (Cons k ks)
  have "j < length (put r g b k d)" using Cons.prems by (simp add: length_put)
  then show ?case using Cons.IH [of "put r g b k d"] Cons.prems
    by (simp add: nth_put)
qed

lemma store_in: "i < length d \<Longrightarrow> store_byte d (int i) v = d[i := v]"
  by (simp add: store_byte_def)

lemma fill_pixel_put:
  assumes "4 * (w * y + x) + 3 < length d" "length d < 2147483648"
  shows "fill_pixel_bytes w r g b y x d = put r g b (w * y + x) d"
proof -
  define k where "k = w * y + x"
  have k: "4 * k + 3 < length d" using assms(1) by (simp add: k_def)
  have "int k * 2 ^ 2 < 2147483648" using k assms(2) by simp
  then have "js_shl (Num (int k)) 2 = int k * 2 ^ 2"
    by (intro js_shl_small) simp_all
  then have idx: "js_shl (Num (int k)) 2 = int (4 * k)"
    by simp
  have n: "int (4 * k) + 1 = int (4 * k + 1)" "int (4 * k) + 2 = int (4 * k + 2)"
    "int (4 * k) + 3 = int (4 * k + 3)"
    by simp_all
  have s1: "store_byte d (int (4 * k)) r = d[4 * k := r]"
    if "4 * k + 3 < length d" for d :: "8 word list" and r
    by (rule store_in) (use that in simp)
  have s2: "store_byte d (int (4 * k + 1)) r = d[4 * k + 1 := r]"
    if "4 * k + 3 < length d" for d :: "8 word list" and r
    by (rule store_in) (use that in simp)
  have s3: "store_byte d (int (4 * k + 2)) r = d[4 * k + 2 := r]"
    if "4 * k + 3 < length d" for d :: "8 word list" and r
    by (rule store_in) (use that in simp)
  have s4: "store_byte d (int (4 * k + 3)) r = d[4 * k + 3 := r]"
    if "4 * k + 3 < length d" for d :: "8 word list" and r
    by (rule store_in) (use that in simp)
  have "fill_pixel_bytes w r g b y x d =
      store_byte (store_byte (store_byte (store_byte d (int (4 * k)) r) (int (4 * k + 1)) g)
        (int (4 * k + 2)) b) (int (4 * k + 3)) 255"
    unfolding fill_pixel_bytes_def Let_def k_def [symmetric] idx n ..
  also have "\<dots> = put r g b k d"
    using k by (simp only: s1 s2 s3 s4 length_list_update put_def)
  finally show ?thesis by (simp add: k_def)
qed

lemma fold_agree:
  assumes "\<And>x d. x \<in> set xs \<Longrightarrow> length d = n \<Longrightarrow> f x d = g x d"
    and "\<And>x d. length (g x d) = length d"
    and "length d = n"
  shows "fold f xs d = fold g xs d"
  using assms
proof (induction xs arbitrary: d)
  case Nil
  then show ?case by simp
next
  case (Cons x xs)
  have "f x d = g x d" using Cons.prems(1) [of x d] Cons.prems(3) by simp
  moreover have "length (g x d) = n" using Cons.prems(2,3) by simp
  ultimately show ?case using Cons.IH [of "g x d"] Cons.prems(1,2) by simp
qed

lemma fill_row_put:
  assumes "4 * (w * Suc y) \<le> length d" "length d < 2147483648"
  shows "fill_row_bytes w r g b y d =
     fold (put r g b) (map (\<lambda>x. w * y + x) [0..<w]) d"
proof -
  have "fill_row_bytes w r g b y d =
      fold (\<lambda>x. put r g b (w * y + x)) [0..<w] d"
    unfolding fill_row_bytes_def
  proof (rule fold_agree [where n = "length d"])
    fix x and d' :: "8 word list"
    assume "x \<in> set [0..<w]" and len: "length d' = length d"
    then have "w * y + x < w * Suc y" by simp
    then have "4 * (w * y + x) + 3 < 4 * (w * Suc y)" by arith
    then have "4 * (w * y + x) + 3 < length d'" using assms(1) len by simp
    then show "fill_pixel_bytes w r g b y x d' =
        put r g b (w * y + x) d'"
      using assms(2) len by (intro fill_pixel_put) simp_all
  qed (simp_all add: length_put)
  then show ?thesis by (simp add: fold_map comp_def)
qed

lemma length_fill_row:
  "4 * (w * Suc y) \<le> length d \<Longrightarrow> length d < 2147483648 \<Longrightarrow>
   length (fill_row_bytes w r g b y d) = length d"
  by (simp add: fill_row_put length_fold_put)

lemma nth_fill_row:
  assumes "4 * (w * Suc y) \<le> length d" "length d < 2147483648" "j < length d"
  shows "fill_row_bytes w r g b y d ! j =
     (if w * y \<le> j div 4 \<and> j div 4 < w * Suc y
      then [r, g, b, 255] ! (j mod 4) else d ! j)"
proof -
  have "(j div 4 \<in> (\<lambda>x. w * y + x) ` {0..<w}) = (w * y \<le> j div 4 \<and> j div 4 < w * Suc y)"
  proof
    assume "j div 4 \<in> (\<lambda>x. w * y + x) ` {0..<w}"
    then show "w * y \<le> j div 4 \<and> j div 4 < w * Suc y" by auto
  next
    assume a: "w * y \<le> j div 4 \<and> j div 4 < w * Suc y"
    then have "j div 4 = w * y + (j div 4 - w * y)" "j div 4 - w * y < w" by auto
    then show "j div 4 \<in> (\<lambda>x. w * y + x) ` {0..<w}"
      by (metis atLeastLessThan_iff imageI zero_le)
  qed
  then show ?thesis
    using assms by (simp add: fill_row_put nth_fold_put)
qed

lemma fill_Suc: "fill_bytes w (Suc h) r g b d = fill_row_bytes w r g b h (fill_bytes w h r g b d)"
  by (simp add: fill_bytes_def)

lemma fill_rows:
  assumes "4 * (w * h) \<le> length d" "length d < 2147483648"
  shows "length (fill_bytes w h r g b d) = length d \<and>
     (\<forall>j < length d. fill_bytes w h r g b d ! j =
        (if j div 4 < w * h then [r, g, b, 255] ! (j mod 4)
         else d ! j))"
  using assms
proof (induction h)
  case 0
  then show ?case by (simp add: fill_bytes_def)
next
  case (Suc h)
  have le: "4 * (w * h) \<le> length d" using Suc.prems(1) by simp
  note IH = Suc.IH [OF le Suc.prems(2)]
  have len: "length (fill_bytes w h r g b d) = length d" using IH by simp
  have a: "4 * (w * Suc h) \<le> length (fill_bytes w h r g b d)"
    and b: "length (fill_bytes w h r g b d) < 2147483648"
    using Suc.prems len by simp_all
  show ?case
  proof (intro conjI allI impI)
    show "length (fill_bytes w (Suc h) r g b d) = length d"
      by (simp add: fill_Suc length_fill_row [OF a b] len)
  next
    fix j assume j: "j < length d"
    then have j': "j < length (fill_bytes w h r g b d)" by (simp add: len)
    have old: "fill_bytes w h r g b d ! j =
        (if j div 4 < w * h then [r, g, b, 255] ! (j mod 4)
         else d ! j)"
      using IH j by simp
    show "fill_bytes w (Suc h) r g b d ! j =
        (if j div 4 < w * Suc h then [r, g, b, 255] ! (j mod 4)
         else d ! j)"
      unfolding fill_Suc nth_fill_row [OF a b j'] old
      by auto
  qed
qed

lemma nth_concat_replicate:
  "j < length xs * n \<Longrightarrow> concat (replicate n xs) ! j = xs ! (j mod length xs)"
proof (induction n arbitrary: j)
  case 0
  then show ?case by simp
next
  case (Suc n)
  have step: "concat (replicate (Suc n) xs) ! j =
      (if j < length xs then xs ! j else concat (replicate n xs) ! (j - length xs))"
    by (simp add: nth_append)
  show ?case
  proof (cases "j < length xs")
    case True
    then show ?thesis by (simp only: step if_True mod_less)
  next
    case False
    then have le: "length xs \<le> j" by simp
    have "j - length xs < length xs * n"
      using Suc.prems le by (simp add: less_diff_conv2 add.commute)
    then have "concat (replicate n xs) ! (j - length xs) = xs ! ((j - length xs) mod length xs)"
      by (rule Suc.IH)
    also have "(j - length xs) mod length xs = j mod length xs"
      using le by (simp add: le_mod_geq)
    finally show ?thesis using False by (simp only: step if_False)
  qed
qed

lemma length_concat_replicate: "length (concat (replicate n xs)) = length xs * n"
  by (induction n) simp_all

lemma fill_solid:
  assumes "length d = 4 * (w * h)" "4 * (w * h) < 2147483648"
  shows "fill_bytes w h r g b d = concat (replicate (w * h) [r, g, b, 255])"
proof (rule nth_equalityI)
  have f: "length (fill_bytes w h r g b d) = length d \<and>
     (\<forall>j < length d. fill_bytes w h r g b d ! j =
        (if j div 4 < w * h then [r, g, b, 255] ! (j mod 4)
         else d ! j))"
    using assms by (intro fill_rows) simp_all
  show "length (fill_bytes w h r g b d) =
      length (concat (replicate (w * h) [r, g, b, 255]))"
    using f assms(1) by (simp add: length_concat_replicate)
  fix j assume "j < length (fill_bytes w h r g b d)"
  then have j: "j < 4 * (w * h)" using f assms(1) by simp
  then have "j div 4 < w * h" by auto
  then show "fill_bytes w h r g b d ! j =
      concat (replicate (w * h) [r, g, b, 255]) ! j"
    using f j assms(1) by (simp add: nth_concat_replicate)
qed


subsection \<open>The loops with conversions\<close>

lemma store_ok: "to_uint8 rt v = Inr w \<Longrightarrow> store rt d i v = Inr (store_byte d i w)"
  by (simp add: store_def store_byte_def and_then_def)

lemma to_uint8_alpha: "to_uint8 rt (Some (JNum 255)) = Inr 255"
  by (simp add: to_uint8_def to_primitive_def prim_int32_def and_then_def to_int32_def)

lemma fill_pixel_ok:
  assumes "to_uint8 rt r = Inr r8" "to_uint8 rt g = Inr g8" "to_uint8 rt b = Inr b8"
  shows "fill_pixel rt w r g b y x d = Inr (fill_pixel_bytes w r8 g8 b8 y x d)"
  by (simp add: fill_pixel_def fill_pixel_bytes_def Let_def store_ok [OF assms(1)]
      store_ok [OF assms(2)] store_ok [OF assms(3)] store_ok [OF to_uint8_alpha] and_then_def)

lemma fold_and_then:
  assumes "\<And>x d. f x d = Inr (g x d)"
  shows "fold (\<lambda>x acc. and_then acc (f x)) xs (Inr d) = Inr (fold g xs d)"
  by (induction xs arbitrary: d) (simp_all add: and_then_def assms)

lemma fill_ok:
  assumes "to_uint8 rt r = Inr r8" "to_uint8 rt g = Inr g8" "to_uint8 rt b = Inr b8"
  shows "fill rt w h r g b d = Inr (fill_bytes w h r8 g8 b8 d)"
proof -
  have row: "fill_row rt w r g b y d = Inr (fill_row_bytes w r8 g8 b8 y d)" for y d
    unfolding fill_row_def fill_row_bytes_def
    by (rule fold_and_then) (rule fill_pixel_ok [OF assms])
  show ?thesis
    unfolding fill_def fill_bytes_def
    by (rule fold_and_then) (rule row)
qed

lemma createPngBase64_integers:
  "createPngBase64 rt (JArr (map JNum xs)) =
     Inr (''data:image/png;base64,'' @
       base64 rt (png_write rt ((new_PNG 128 128)
         \<lparr>data := fill_bytes 128 128
            (case at_index xs 0 of None \<Rightarrow> 0 | Some x \<Rightarrow> word_of_int (to_int32 (Num x)))
            (case at_index xs 1 of None \<Rightarrow> 0 | Some x \<Rightarrow> word_of_int (to_int32 (Num x)))
            (case at_index xs 2 of None \<Rightarrow> 0 | Some x \<Rightarrow> word_of_int (to_int32 (Num x)))
            (data (new_PNG 128 128))\<rparr>)))"
  by (simp add: createPngBase64_def elements_def and_then_def Let_def at_index_map
      fill_ok [OF to_uint8_number to_uint8_number to_uint8_number])

lemma uint_channel: "channel x \<Longrightarrow> uint (word_of_int x :: 8 word) = x"
  by (simp add: channel_def uint_word_of_int_eq take_bit_int_eq_self)

lemma createPngBase64_eq:
  assumes "channel r" "channel g" "channel b"
  shows "createPngBase64 rt (JArr [JNum r, JNum g, JNum b]) =
     Inr (''data:image/png;base64,'' @
       base64 rt (png_write rt (solid 128 128 (word_of_int r) (word_of_int g) (word_of_int b))))"
proof -
  have i: "to_int32 (Num r) = r" "to_int32 (Num g) = g" "to_int32 (Num b) = b"
    using assms by (simp_all add: channel_def to_int32_id)
  have "fill_bytes 128 128 (word_of_int r) (word_of_int g) (word_of_int b)
          (replicate (4 * 128 * 128) 0) =
      concat (replicate (128 * 128) [word_of_int r, word_of_int g, word_of_int b, 255])"
    by (rule fill_solid) simp_all
  then show ?thesis
    using createPngBase64_integers [of rt "[r, g, b]"]
    by (simp add: at_index_def i new_PNG_def solid_def)
qed

subsection \<open>The handlers, path by path\<close>

lemma setTitle_map:
  "setTitle s f = (case setTitle s id of Inl e \<Rightarrow> Inl e | Inr t \<Rightarrow> Inr (f t))"
  by (cases "js_toString (the (colorRgb s))") (simp_all add: setTitle_def and_then_def)

lemma setTitle_typed:
  assumes "colorRgb s = None \<or> colorRgb s = Some (JArr (map JNum ys))"
  shows "\<exists>t. setTitle s id = Inr t"
  using assms
  by (auto simp add: setTitle_def truthy_def and_then_def join_elements_integers)

lemma onKeyDown_begin_eq:
  "onKeyDown_begin h =
     h\<lparr>stored := (stored h)\<lparr>isDown := True\<rparr>,
       trace := trace h @ [SetSettings ((stored h)\<lparr>isDown := True\<rparr>)]\<rparr>"
  by (simp add: onKeyDown_begin_def Let_def host_ops)

lemma onKeyDown_timer_up:
  "\<not> isDown (stored h) \<Longrightarrow> onKeyDown_timer rt h = (Resolved, h)"
  by (simp add: onKeyDown_timer_def Let_def host_ops)

lemma onKeyDown_timer_down:
  "isDown (stored h) \<Longrightarrow>
   onKeyDown_timer rt h =
     (Resolved, changeLampColor rt (colorRgb (stored h)) (stored h)
                  (setSettings ((stored h)\<lparr>longPress := True\<rparr>) h))"
  by (simp add: onKeyDown_timer_def Let_def host_ops)

lemma onKeyUp_long:
  "longPress (stored h) \<Longrightarrow>
   onKeyUp rt h =
     (Resolved, h\<lparr>stored := (stored h)\<lparr>longPress := False\<rparr>,
                  trace := trace h @ [SetSettings ((stored h)\<lparr>isDown := False\<rparr>),
                                      SetSettings ((stored h)\<lparr>longPress := False\<rparr>)]\<rparr>)"
  by (simp add: onKeyUp_def Let_def host_ops)

lemma onKeyUp_failed:
  "\<not> longPress (stored h) \<Longrightarrow> pick rt = ExecFailed \<or> pick rt = ParseFailed \<Longrightarrow>
   onKeyUp rt h =
     (Rejected (if pick rt = ExecFailed then ExecError else SyntaxError),
      h\<lparr>stored := (stored h)\<lparr>isDown := False\<rparr>,
        trace := trace h @ [SetSettings ((stored h)\<lparr>isDown := False\<rparr>),
                            ExecFile ''pick-color.exe'']\<rparr>)"
  by (auto simp add: onKeyUp_def Let_def host_ops)

lemma onKeyUp_parsed:
  assumes "\<not> longPress (stored h)" "pick rt = Parsed c"
  shows "onKeyUp rt h =
     (case hex_of_color rt c of
        Inl e \<Rightarrow>
          (Rejected e,
           changeLampColor rt (Some c) (stored h)
             (execFile ''pick-color.exe'' (setSettings ((stored h)\<lparr>isDown := False\<rparr>) h)))
      | Inr hex \<Rightarrow>
          (case setTitle (stored h) id of
             Inl e \<Rightarrow>
               (Rejected e,
                setSettings ((stored h)\<lparr>isDown := False, colorHex := hex, longPress := False,
                                        colorRgb := Some c\<rparr>)
                  (changeLampColor rt (Some c) (stored h)
                    (execFile ''pick-color.exe''
                      (setSettings ((stored h)\<lparr>isDown := False\<rparr>) h))))
           | Inr t \<Rightarrow>
               (case createPngBase64 rt c of
                  Inl e \<Rightarrow>
                    (Rejected e,
                     action_setTitle t
                       (setSettings ((stored h)\<lparr>isDown := False, colorHex := hex,
                                               longPress := False, colorRgb := Some c\<rparr>)
                         (changeLampColor rt (Some c) (stored h)
                           (execFile ''pick-color.exe''
                             (setSettings ((stored h)\<lparr>isDown := False\<rparr>) h)))))
                | Inr img \<Rightarrow>
                    (Resolved,
                     setImage img
                       (action_setTitle t
                         (setSettings ((stored h)\<lparr>isDown := False, colorHex := hex,
                                                 longPress := False, colorRgb := Some c\<rparr>)
                           (changeLampColor rt (Some c) (stored h)
                             (execFile ''pick-color.exe''
                               (setSettings ((stored h)\<lparr>isDown := False\<rparr>) h)))))))))"
proof -
  have t: "setTitle s (\<lambda>t. action_setTitle t h4) =
      (case setTitle s id of Inl e \<Rightarrow> Inl e | Inr t \<Rightarrow> Inr (action_setTitle t h4))" for s h4
    by (rule setTitle_map)
  show ?thesis
    using assms by (simp add: onKeyUp_def Let_def getSettings_def t split: sum.splits)
qed

lemma onKeyUp_parsed_outcome:
  "\<not> longPress (stored h) \<Longrightarrow> pick rt = Parsed c \<Longrightarrow>
   fst (onKeyUp rt h) =
     (case hex_of_color rt c of
        Inl e \<Rightarrow> Rejected e
      | Inr hex \<Rightarrow>
          (case setTitle (stored h) id of
             Inl e \<Rightarrow> Rejected e
           | Inr t \<Rightarrow>
               (case createPngBase64 rt c of
                  Inl e \<Rightarrow> Rejected e
                | Inr img \<Rightarrow> Resolved)))"
  by (simp add: onKeyUp_parsed split: sum.splits)

lemma onKeyUp_parsed_stored:
  "\<not> longPress (stored h) \<Longrightarrow> pick rt = Parsed c \<Longrightarrow>
   stored (snd (onKeyUp rt h)) =
     (case hex_of_color rt c of
        Inl e \<Rightarrow> (stored h)\<lparr>isDown := False\<rparr>
      | Inr hex \<Rightarrow>
          (stored h)\<lparr>isDown := False, colorHex := hex, longPress := False,
                     colorRgb := Some c\<rparr>)"
  by (simp add: onKeyUp_parsed host_ops stored_changeLampColor split: sum.splits)

lemma onKeyUp_parsed_trace:
  "\<not> longPress (stored h) \<Longrightarrow> pick rt = Parsed c \<Longrightarrow>
   trace (snd (onKeyUp rt h)) =
     trace h @
       [SetSettings ((stored h)\<lparr>isDown := False\<rparr>), ExecFile ''pick-color.exe''] @
       map (\<lambda>light. Fetch (light_request (Some c) (stored h) light))
           (split_lights (lights (stored h))) @
       (case hex_of_color rt c of
          Inl e \<Rightarrow> []
        | Inr hex \<Rightarrow>
            SetSettings ((stored h)\<lparr>isDown := False, colorHex := hex, longPress := False,
                                    colorRgb := Some c\<rparr>) #
            (case setTitle (stored h) id of
               Inl e \<Rightarrow> []
             | Inr t \<Rightarrow>
                 SetTitle t #
                 (case createPngBase64 rt c of
                    Inl e \<Rightarrow> []
                  | Inr img \<Rightarrow> [SetImage img])))"
  by (simp add: onKeyUp_parsed host_ops trace_changeLampColor split: sum.splits)

subsection \<open>What the handlers write and send\<close>

lemma writes_onKeyDown_begin:
  "writes (issued h (onKeyDown_begin h)) = [(stored h)\<lparr>isDown := True\<rparr>]"
  by (simp add: onKeyDown_begin_eq issued_def)

lemma writes_onKeyDown_timer:
  "writes (issued h (snd (onKeyDown_timer rt h))) =
     (if isDown (stored h) then [(stored h)\<lparr>longPress := True\<rparr>] else [])"
  by (simp add: onKeyDown_timer_up onKeyDown_timer_down issued_def trace_changeLampColor
      setSettings_def writes_fetches)

lemma writes_onKeyUp:
  "writes (issued h (snd (onKeyUp rt h))) =
     (if longPress (stored h) then
        [(stored h)\<lparr>isDown := False\<rparr>, (stored h)\<lparr>longPress := False\<rparr>]
      else case pick rt of
             Parsed c \<Rightarrow>
               (case hex_of_color rt c of
                  Inl e \<Rightarrow> [(stored h)\<lparr>isDown := False\<rparr>]
                | Inr hex \<Rightarrow>
                    [(stored h)\<lparr>isDown := False\<rparr>,
                     (stored h)\<lparr>isDown := False, colorHex := hex, longPress := False,
                                colorRgb := Some c\<rparr>])
           | _ \<Rightarrow> [(stored h)\<lparr>isDown := False\<rparr>])"
proof (cases "longPress (stored h)")
  case True
  then show ?thesis by (simp add: onKeyUp_long issued_def)
next
  case False
  show ?thesis
  proof (cases "pick rt")
    case (Parsed c)
    with False show ?thesis
      by (simp add: issued_def onKeyUp_parsed_trace writes_append writes_fetches
          split: sum.splits)
  qed (use False in \<open>simp_all add: onKeyUp_failed issued_def\<close>)
qed

lemma fetches_onKeyUp_parsed:
  "\<not> longPress (stored h) \<Longrightarrow> pick rt = Parsed c \<Longrightarrow>
   fetches (issued h (snd (onKeyUp rt h))) =
     map (light_request (Some c) (stored h)) (split_lights (lights (stored h)))"
  by (simp add: issued_def onKeyUp_parsed_trace fetches_append fetches_fetches
      split: sum.splits)

lemma channels_of_Some:
  "channels_of c = Some (r, g, b) \<Longrightarrow>
   c = JArr [JNum r, JNum g, JNum b] \<and> channel r \<and> channel g \<and> channel b"
  by (induction c rule: channels_of.induct) (simp_all split: if_splits)

lemma valid_rgb_derivable:
  assumes "valid_rgb c" "colorRgb w = Some c" "hex_of_color rt c = Inr (colorHex w)"
  shows "hex_derivable w"
proof -
  obtain r g b where ch: "channels_of c = Some (r, g, b)"
    using assms(1) by (auto simp add: valid_rgb_def)
  then have c: "c = JArr [JNum r, JNum g, JNum b]" "channel r" "channel g" "channel b"
    using channels_of_Some by blast+
  then have "hex_of_color rt c = Inr (spec_hex r g b)"
    by (simp add: hex_of_color_channels)
  with assms(3) have "colorHex w = spec_hex r g b" by simp
  then show ?thesis using assms(2) ch by (simp add: hex_derivable_def)
qed

subsection \<open>The requests of changeLampColor\<close>

lemma split_from_plain: "CHR '','' \<notin> set s \<Longrightarrow> split_from piece s = [Some (piece @ s)]"
  by (induction s arbitrary: piece) auto

lemma split_lights_plain: "CHR '','' \<notin> set s \<Longrightarrow> split_lights s = [Some s]"
  by (simp add: split_lights_def split_from_plain)

lemma example_lights: "lights example_settings = ''kitchen, bedroom''"
  by (simp add: example_settings_def)

lemma example_stored: "stored (example_host s) = s"
  by (simp add: example_host_def)

lemma example_pick: "pick (example_runtime p) = p"
  by (simp add: example_runtime_def)

lemma example_short: "\<not> longPress example_settings"
  by (simp add: example_settings_def)

text \<open>
  C1. For \<open>lights = "kitchen, bedroom"\<close> the claim expects exactly two POST requests, for
  \<open>kitchen\<close> and \<open>bedroom\<close>. The capture group of the separator puts the matched space into
  the result of \<open>split\<close>, so \<open>changeLampColor\<close> issues three requests, the second with the
  entity id \<open>" "\<close>; all three carry the same colour.
\<close>

theorem changeLampColor_kitchen_bedroom:
  "trace (changeLampColor rt color (s\<lparr>lights := ''kitchen, bedroom''\<rparr>) h) =
     trace h @
       [Fetch \<lparr>req_url = url s @ ''/api/services/light/turn_on'', req_method = ''POST'',
               req_headers = [(''Authorization'', ''Bearer '' @ token s),
                              (''Content-Type'', ''application/json'')],
               req_body = \<lparr>entity_id = Some ''kitchen'', rgb_color = color\<rparr>\<rparr>,
        Fetch \<lparr>req_url = url s @ ''/api/services/light/turn_on'', req_method = ''POST'',
               req_headers = [(''Authorization'', ''Bearer '' @ token s),
                              (''Content-Type'', ''application/json'')],
               req_body = \<lparr>entity_id = Some '' '', rgb_color = color\<rparr>\<rparr>,
        Fetch \<lparr>req_url = url s @ ''/api/services/light/turn_on'', req_method = ''POST'',
               req_headers = [(''Authorization'', ''Bearer '' @ token s),
                              (''Content-Type'', ''application/json'')],
               req_body = \<lparr>entity_id = Some ''bedroom'', rgb_color = color\<rparr>\<rparr>]"
  by (simp add: trace_changeLampColor split_kitchen_bedroom light_request_def)

subsection \<open>Key up after a long press\<close>

text \<open>
  C2. When \<open>onKeyUp\<close> reads \<open>longPress = true\<close>, the claim expects the record persisted last
  to have \<open>longPress = false\<close> and \<open>isDown = false\<close>. The handler first writes the copy it read
  with \<open>isDown = false\<close> and then the same copy with \<open>longPress = false\<close>: the second write
  carries the \<open>isDown\<close> that was read. After a long press that value is \<open>true\<close>, and it is
  what stays persisted; the other fields are unchanged, the picker is not started and nothing
  is sent.
\<close>

theorem onKeyUp_after_long_press:
  "snd (onKeyUp rt (h\<lparr>stored := s\<lparr>isDown := True, longPress := True\<rparr>\<rparr>)) =
     h\<lparr>stored := s\<lparr>isDown := True, longPress := False\<rparr>,
       trace := trace h @ [SetSettings (s\<lparr>isDown := False, longPress := True\<rparr>),
                           SetSettings (s\<lparr>isDown := True, longPress := False\<rparr>)]\<rparr>"
  by (simp add: onKeyUp_long)

subsection \<open>Errors\<close>

text \<open>
  C3, as stated, fails: on a short press with a failing picker process \<open>onKeyUp\<close> rejects.
\<close>

theorem onKeyUp_rejects_counterexample:
  "fst (onKeyUp (example_runtime ExecFailed) (example_host example_settings)) = Rejected ExecError"
  by (simp add: onKeyUp_failed example_eval)

text \<open>
  C3, amended. \<open>onKeyDown\<close> always resolves (\<open>settings.lights\<close> being a string, as
  \<open>LightSettings\<close> declares), and a failure of an HTTP request never reaches a handler:
  each failed request ends in one \<open>console.error\<close> line. \<open>onKeyUp\<close> catches nothing. On a
  short press it rejects with the error of the picker process, with the \<open>SyntaxError\<close> of
  \<open>JSON.parse\<close> when the output is not JSON, and with the \<open>TypeError\<close> thrown at \<open>color[0]\<close>
  when the output parses to \<open>null\<close>. It resolves on the long-press path, and on a short
  press whose output parses to an array of integers while the stored \<open>colorRgb\<close> is absent
  or an array of integers.
\<close>

theorem handlers_outcome:
  "fst (onKeyDown rt during h) = Resolved \<and>
   console (changeLampColor rt color s h) =
     console h @ concat (map (\<lambda>light. case http rt (light_request color s light) of
                                         Json \<Rightarrow> [] | _ \<Rightarrow> [''Error:''])
                             (split_lights (lights s))) \<and>
   (longPress (stored h) \<longrightarrow> fst (onKeyUp rt h) = Resolved) \<and>
   (\<not> longPress (stored h) \<and> pick rt = ExecFailed \<longrightarrow>
      fst (onKeyUp rt h) = Rejected ExecError) \<and>
   (\<not> longPress (stored h) \<and> pick rt = ParseFailed \<longrightarrow>
      fst (onKeyUp rt h) = Rejected SyntaxError) \<and>
   (\<not> longPress (stored h) \<and> pick rt = Parsed JNull \<longrightarrow>
      fst (onKeyUp rt h) = Rejected TypeError) \<and>
   (\<not> longPress (stored h) \<and> pick rt = Parsed (JArr (map JNum xs)) \<and>
    (colorRgb (stored h) = None \<or> colorRgb (stored h) = Some (JArr (map JNum ys))) \<longrightarrow>
      fst (onKeyUp rt h) = Resolved)"
proof (intro conjI impI)
  show "fst (onKeyDown rt during h) = Resolved"
    by (simp add: onKeyDown_def onKeyDown_timer_def Let_def)
  show "console (changeLampColor rt color s h) =
     console h @ concat (map (\<lambda>light. case http rt (light_request color s light) of
                                         Json \<Rightarrow> [] | _ \<Rightarrow> [''Error:''])
                             (split_lights (lights s)))"
    by (rule console_changeLampColor)
next
  assume "longPress (stored h)"
  then show "fst (onKeyUp rt h) = Resolved"
    by (simp add: onKeyUp_long)
next
  assume "\<not> longPress (stored h) \<and> pick rt = ExecFailed"
  then show "fst (onKeyUp rt h) = Rejected ExecError"
    by (simp add: onKeyUp_failed)
next
  assume "\<not> longPress (stored h) \<and> pick rt = ParseFailed"
  then show "fst (onKeyUp rt h) = Rejected SyntaxError"
    by (simp add: onKeyUp_failed)
next
  assume "\<not> longPress (stored h) \<and> pick rt = Parsed JNull"
  then show "fst (onKeyUp rt h) = Rejected TypeError"
    by (simp add: onKeyUp_parsed_outcome hex_of_color_def get_index_def and_then_def)
next
  assume a: "\<not> longPress (stored h) \<and> pick rt = Parsed (JArr (map JNum xs)) \<and>
    (colorRgb (stored h) = None \<or> colorRgb (stored h) = Some (JArr (map JNum ys)))"
  then obtain t where "setTitle (stored h) id = Inr t"
    using setTitle_typed [of "stored h" ys] by blast
  with a show "fst (onKeyUp rt h) = Resolved"
    by (simp add: onKeyUp_parsed_outcome hex_of_color_integers createPngBase64_integers)
qed


text \<open>
  The parts at sample values. The request for the entity \<open>" "\<close> fails and is logged; a
  long press, a picker that fails, output that is not JSON, output \<open>null\<close>, and output
  \<open>[1, 2, 3]\<close>.
\<close>

theorem handlers_outcome_witness:
  "fst (onKeyDown (example_runtime ParseFailed) id (example_host example_settings)) = Resolved \<and>
   console (changeLampColor (example_runtime ParseFailed) (Some (JArr [JNum 1, JNum 2, JNum 3]))
              example_settings (example_host example_settings)) = [''Error:''] \<and>
   fst (onKeyUp (example_runtime ParseFailed)
          (example_host (example_settings\<lparr>longPress := True\<rparr>))) = Resolved \<and>
   fst (onKeyUp (example_runtime ExecFailed) (example_host example_settings)) =
     Rejected ExecError \<and>
   fst (onKeyUp (example_runtime ParseFailed) (example_host example_settings)) =
     Rejected SyntaxError \<and>
   fst (onKeyUp (example_runtime (Parsed JNull)) (example_host example_settings)) =
     Rejected TypeError \<and>
   fst (onKeyUp (example_runtime (Parsed (JArr [JNum 1, JNum 2, JNum 3])))
          (example_host example_settings)) = Resolved"
proof -
  let ?h = "example_host example_settings"
  have col: "colorRgb (stored ?h) = Some (JArr (map JNum [255, 0, 128]))"
    by (simp add: example_eval)
  have short: "\<not> longPress (stored ?h)"
    by (simp add: example_eval)
  have long: "longPress (stored (example_host (example_settings\<lparr>longPress := True\<rparr>)))"
    by (simp add: example_host_def)
  have failing:
    "concat (map (\<lambda>light. case http (example_runtime ParseFailed)
                                  (light_request (Some (JArr [JNum 1, JNum 2, JNum 3]))
                                     example_settings light) of
                             Json \<Rightarrow> [] | _ \<Rightarrow> [''Error:''])
                 (split_lights (lights example_settings))) = [''Error:'']"
    by (simp add: example_lights split_kitchen_bedroom light_request_def example_runtime_def)
  have "fst (onKeyDown (example_runtime ParseFailed) id ?h) = Resolved"
    using handlers_outcome [where rt = "example_runtime ParseFailed" and during = id and h = ?h]
    by blast
  moreover have "console (changeLampColor (example_runtime ParseFailed)
        (Some (JArr [JNum 1, JNum 2, JNum 3])) example_settings ?h) = [''Error:'']"
    using handlers_outcome [where rt = "example_runtime ParseFailed" and h = ?h
        and color = "Some (JArr [JNum 1, JNum 2, JNum 3])" and s = example_settings]
    by (simp add: failing) (simp add: example_host_def)
  moreover have "fst (onKeyUp (example_runtime ParseFailed)
        (example_host (example_settings\<lparr>longPress := True\<rparr>))) = Resolved"
    using long handlers_outcome [where rt = "example_runtime ParseFailed"
        and h = "example_host (example_settings\<lparr>longPress := True\<rparr>)"]
    by blast
  moreover have "fst (onKeyUp (example_runtime ExecFailed) ?h) = Rejected ExecError"
    using short example_pick [of ExecFailed]
      handlers_outcome [where rt = "example_runtime ExecFailed" and h = ?h]
    by blast
  moreover have "fst (onKeyUp (example_runtime ParseFailed) ?h) = Rejected SyntaxError"
    using short example_pick [of ParseFailed]
      handlers_outcome [where rt = "example_runtime ParseFailed" and h = ?h]
    by blast
  moreover have "fst (onKeyUp (example_runtime (Parsed JNull)) ?h) = Rejected TypeError"
    using short example_pick [of "Parsed JNull"]
      handlers_outcome [where rt = "example_runtime (Parsed JNull)" and h = ?h]
    by blast
  moreover have "fst (onKeyUp (example_runtime (Parsed (JArr [JNum 1, JNum 2, JNum 3]))) ?h) =
      Resolved"
  proof -
    have p: "pick (example_runtime (Parsed (JArr [JNum 1, JNum 2, JNum 3]))) =
        Parsed (JArr (map JNum [1, 2, 3]))"
      by (simp add: example_pick)
    show ?thesis
      using short p col
        handlers_outcome [where rt = "example_runtime (Parsed (JArr [JNum 1, JNum 2, JNum 3]))"
          and h = ?h and xs = "[1, 2, 3]" and ys = "[255, 0, 128]"]
      by blast
  qed
  ultimately show ?thesis by blast
qed

text \<open>
  C8, as stated, fails: the picker prints \<open>[300, 0, 0]\<close>, which is not a triple of channels,
  and \<open>onKeyUp\<close> resolves, sends the colour to every light and stores it.
\<close>

theorem onKeyUp_invalid_pick_counterexample:
  "\<not> longPress (stored (example_host example_settings)) \<and>
   \<not> valid_pick (pick (example_runtime (Parsed (JArr [JNum 300, JNum 0, JNum 0])))) \<and>
   fst (onKeyUp (example_runtime (Parsed (JArr [JNum 300, JNum 0, JNum 0])))
          (example_host example_settings)) = Resolved \<and>
   fetches (issued (example_host example_settings)
             (snd (onKeyUp (example_runtime (Parsed (JArr [JNum 300, JNum 0, JNum 0])))
                     (example_host example_settings)))) =
     [\<lparr>req_url = ''http://homeassistant.local:8123/api/services/light/turn_on'',
       req_method = ''POST'',
       req_headers = [(''Authorization'', ''Bearer secret''),
                      (''Content-Type'', ''application/json'')],
       req_body = \<lparr>entity_id = Some ''kitchen'',
                   rgb_color = Some (JArr [JNum 300, JNum 0, JNum 0])\<rparr>\<rparr>,
      \<lparr>req_url = ''http://homeassistant.local:8123/api/services/light/turn_on'',
       req_method = ''POST'',
       req_headers = [(''Authorization'', ''Bearer secret''),
                      (''Content-Type'', ''application/json'')],
       req_body = \<lparr>entity_id = Some '' '',
                   rgb_color = Some (JArr [JNum 300, JNum 0, JNum 0])\<rparr>\<rparr>,
      \<lparr>req_url = ''http://homeassistant.local:8123/api/services/light/turn_on'',
       req_method = ''POST'',
       req_headers = [(''Authorization'', ''Bearer secret''),
                      (''Content-Type'', ''application/json'')],
       req_body = \<lparr>entity_id = Some ''bedroom'',
                   rgb_color = Some (JArr [JNum 300, JNum 0, JNum 0])\<rparr>\<rparr>] \<and>
   colorRgb (stored (snd (onKeyUp (example_runtime (Parsed (JArr [JNum 300, JNum 0, JNum 0])))
                            (example_host example_settings)))) =
     Some (JArr [JNum 300, JNum 0, JNum 0]) \<and>
   colorHex (stored (snd (onKeyUp (example_runtime (Parsed (JArr [JNum 300, JNum 0, JNum 0])))
                            (example_host example_settings)))) = ''#2C0000''"
proof -
  let ?c = "JArr [JNum 300, JNum 0, JNum 0]"
  let ?rt = "example_runtime (Parsed ?c)"
  let ?h = "example_host example_settings"
  have short: "\<not> longPress (stored ?h)" and picked: "pick ?rt = Parsed ?c"
    by (simp_all add: example_eval)
  have hex: "hex_of_color ?rt ?c = Inr ''#2C0000''"
    using hex_of_color_integers [of ?rt "[300, 0, 0]"] by (simp add: hex_eval)
  have title: "setTitle example_settings id = Inr ''#FF0080''"
    by (simp add: setTitle_def example_settings_def)
  have png: "\<exists>img. createPngBase64 ?rt ?c = Inr img"
    using createPngBase64_integers [of ?rt "[300, 0, 0]"] by simp
  have "\<not> valid_pick (pick ?rt)"
    by (simp add: picked valid_rgb_def channel_def)
  moreover note short
  moreover have "fst (onKeyUp ?rt ?h) = Resolved"
    using png by (auto simp add: onKeyUp_parsed_outcome [OF short picked] hex title
        example_stored)
  moreover have "fetches (issued ?h (snd (onKeyUp ?rt ?h))) =
     [\<lparr>req_url = ''http://homeassistant.local:8123/api/services/light/turn_on'',
       req_method = ''POST'',
       req_headers = [(''Authorization'', ''Bearer secret''),
                      (''Content-Type'', ''application/json'')],
       req_body = \<lparr>entity_id = Some ''kitchen'', rgb_color = Some ?c\<rparr>\<rparr>,
      \<lparr>req_url = ''http://homeassistant.local:8123/api/services/light/turn_on'',
       req_method = ''POST'',
       req_headers = [(''Authorization'', ''Bearer secret''),
                      (''Content-Type'', ''application/json'')],
       req_body = \<lparr>entity_id = Some '' '', rgb_color = Some ?c\<rparr>\<rparr>,
      \<lparr>req_url = ''http://homeassistant.local:8123/api/services/light/turn_on'',
       req_method = ''POST'',
       req_headers = [(''Authorization'', ''Bearer secret''),
                      (''Content-Type'', ''application/json'')],
       req_body = \<lparr>entity_id = Some ''bedroom'', rgb_color = Some ?c\<rparr>\<rparr>]"
    by (simp add: fetches_onKeyUp_parsed [OF short picked] example_stored example_lights
        split_kitchen_bedroom light_request_def)
      (simp add: example_settings_def)
  moreover have "colorRgb (stored (snd (onKeyUp ?rt ?h))) = Some ?c"
    and "colorHex (stored (snd (onKeyUp ?rt ?h))) = ''#2C0000''"
    by (simp_all add: onKeyUp_parsed_stored [OF short picked] hex)
  ultimately show ?thesis by blast
qed

text \<open>
  C8, amended. On the short-press path, when the picker process fails or its output is not
  JSON, \<open>onKeyUp\<close> rejects with that error after persisting \<open>isDown = false\<close> and starting the
  picker: nothing is sent, and colour, title and image stay as they were. Output that parses
  is not checked: whatever value it is, one POST request for each element of the split
  \<open>lights\<close> string is sent to \<open>url + "/api/services/light/turn_on"\<close> with the bearer token
  and with that value as \<open>rgb_color\<close>. If the value is \<open>null\<close>, the handler then rejects with a
  \<open>TypeError\<close> and the colour stays as it was. If it is an array of integers, a valid triple
  or not, it is stored as \<open>colorRgb\<close>, with the hex string that the handler's expression
  gives for it as \<open>colorHex\<close>.
\<close>

theorem onKeyUp_picker_failure:
  assumes "\<not> longPress (stored h)"
  shows "(pick rt = ExecFailed \<or> pick rt = ParseFailed \<longrightarrow>
            onKeyUp rt h =
              (Rejected (if pick rt = ExecFailed then ExecError else SyntaxError),
               h\<lparr>stored := (stored h)\<lparr>isDown := False\<rparr>,
                 trace := trace h @ [SetSettings ((stored h)\<lparr>isDown := False\<rparr>),
                                     ExecFile ''pick-color.exe'']\<rparr>)) \<and>
         (\<forall>c. pick rt = Parsed c \<longrightarrow>
            fetches (issued h (snd (onKeyUp rt h))) =
              map (\<lambda>light.
                     \<lparr>req_url = url (stored h) @ ''/api/services/light/turn_on'',
                      req_method = ''POST'',
                      req_headers = [(''Authorization'', ''Bearer '' @ token (stored h)),
                                     (''Content-Type'', ''application/json'')],
                      req_body = \<lparr>entity_id = light, rgb_color = Some c\<rparr>\<rparr>)
                  (split_lights (lights (stored h)))) \<and>
         (pick rt = Parsed JNull \<longrightarrow>
            fst (onKeyUp rt h) = Rejected TypeError \<and>
            stored (snd (onKeyUp rt h)) = (stored h)\<lparr>isDown := False\<rparr>) \<and>
         (\<forall>xs. pick rt = Parsed (JArr (map JNum xs)) \<longrightarrow>
            colorRgb (stored (snd (onKeyUp rt h))) = Some (JArr (map JNum xs)) \<and>
            hex_of_color rt (JArr (map JNum xs)) = Inr (colorHex (stored (snd (onKeyUp rt h)))))"
proof (intro conjI allI impI)
  assume "pick rt = ExecFailed \<or> pick rt = ParseFailed"
  with assms show "onKeyUp rt h =
      (Rejected (if pick rt = ExecFailed then ExecError else SyntaxError),
       h\<lparr>stored := (stored h)\<lparr>isDown := False\<rparr>,
         trace := trace h @ [SetSettings ((stored h)\<lparr>isDown := False\<rparr>),
                             ExecFile ''pick-color.exe'']\<rparr>)"
    by (rule onKeyUp_failed)
next
  fix c assume "pick rt = Parsed c"
  with assms show "fetches (issued h (snd (onKeyUp rt h))) =
      map (\<lambda>light.
             \<lparr>req_url = url (stored h) @ ''/api/services/light/turn_on'',
              req_method = ''POST'',
              req_headers = [(''Authorization'', ''Bearer '' @ token (stored h)),
                             (''Content-Type'', ''application/json'')],
              req_body = \<lparr>entity_id = light, rgb_color = Some c\<rparr>\<rparr>)
          (split_lights (lights (stored h)))"
    by (simp add: fetches_onKeyUp_parsed light_request_def)
next
  assume p: "pick rt = Parsed JNull"
  have "hex_of_color rt JNull = Inl TypeError"
    by (simp add: hex_of_color_def get_index_def and_then_def)
  then show "fst (onKeyUp rt h) = Rejected TypeError"
    and "stored (snd (onKeyUp rt h)) = (stored h)\<lparr>isDown := False\<rparr>"
    using assms p by (simp_all add: onKeyUp_parsed_outcome onKeyUp_parsed_stored)
next
  fix xs assume p: "pick rt = Parsed (JArr (map JNum xs))"
  obtain hx where hx: "hex_of_color rt (JArr (map JNum xs)) = Inr hx"
    by (simp add: hex_of_color_integers)
  show "colorRgb (stored (snd (onKeyUp rt h))) = Some (JArr (map JNum xs))"
    and "hex_of_color rt (JArr (map JNum xs)) = Inr (colorHex (stored (snd (onKeyUp rt h))))"
    using assms p hx by (simp_all add: onKeyUp_parsed_stored)
qed

text \<open>
  Short presses at sample values: output that is not JSON, output \<open>null\<close>, and output
  \<open>[300, 0, 0]\<close>.
\<close>

theorem onKeyUp_picker_failure_witness:
  "\<not> longPress (stored (example_host example_settings)) \<and>
   onKeyUp (example_runtime ParseFailed) (example_host example_settings) =
     (Rejected SyntaxError,
      \<lparr>stored = example_settings\<lparr>isDown := False\<rparr>,
       trace = [SetSettings (example_settings\<lparr>isDown := False\<rparr>), ExecFile ''pick-color.exe''],
       console = []\<rparr>) \<and>
   fetches (issued (example_host example_settings)
             (snd (onKeyUp (example_runtime (Parsed JNull)) (example_host example_settings)))) =
     [\<lparr>req_url = ''http://homeassistant.local:8123/api/services/light/turn_on'',
       req_method = ''POST'',
       req_headers = [(''Authorization'', ''Bearer secret''),
                      (''Content-Type'', ''application/json'')],
       req_body = \<lparr>entity_id = Some ''kitchen'', rgb_color = Some JNull\<rparr>\<rparr>,
      \<lparr>req_url = ''http://homeassistant.local:8123/api/services/light/turn_on'',
       req_method = ''POST'',
       req_headers = [(''Authorization'', ''Bearer secret''),
                      (''Content-Type'', ''application/json'')],
       req_body = \<lparr>entity_id = Some '' '', rgb_color = Some JNull\<rparr>\<rparr>,
      \<lparr>req_url = ''http://homeassistant.local:8123/api/services/light/turn_on'',
       req_method = ''POST'',
       req_headers = [(''Authorization'', ''Bearer secret''),
                      (''Content-Type'', ''application/json'')],
       req_body = \<lparr>entity_id = Some ''bedroom'', rgb_color = Some JNull\<rparr>\<rparr>] \<and>
   fst (onKeyUp (example_runtime (Parsed JNull)) (example_host example_settings)) =
     Rejected TypeError \<and>
   stored (snd (onKeyUp (example_runtime (Parsed JNull)) (example_host example_settings))) =
     example_settings\<lparr>isDown := False\<rparr> \<and>
   colorRgb (stored (snd (onKeyUp (example_runtime (Parsed (JArr [JNum 300, JNum 0, JNum 0])))
                            (example_host example_settings)))) =
     Some (JArr [JNum 300, JNum 0, JNum 0]) \<and>
   colorHex (stored (snd (onKeyUp (example_runtime (Parsed (JArr [JNum 300, JNum 0, JNum 0])))
                            (example_host example_settings)))) = ''#2C0000''"
proof -
  let ?h = "example_host example_settings"
  let ?c = "JArr [JNum 300, JNum 0, JNum 0]"
  have short: "\<not> longPress (stored ?h)"
    by (simp add: example_eval)
  note failure = onKeyUp_picker_failure [OF short, where rt = "example_runtime ParseFailed"]
  note null = onKeyUp_picker_failure [OF short, where rt = "example_runtime (Parsed JNull)"]
  note triple = onKeyUp_picker_failure [OF short, where rt = "example_runtime (Parsed ?c)"]
  have u: "url (stored ?h) = ''http://homeassistant.local:8123''"
    "token (stored ?h) = ''secret''" "lights (stored ?h) = ''kitchen, bedroom''"
    by (simp_all add: example_eval)
  have "onKeyUp (example_runtime ParseFailed) ?h =
     (Rejected SyntaxError,
      \<lparr>stored = example_settings\<lparr>isDown := False\<rparr>,
       trace = [SetSettings (example_settings\<lparr>isDown := False\<rparr>), ExecFile ''pick-color.exe''],
       console = []\<rparr>)"
    using failure by (simp add: example_pick) (simp add: example_host_def)
  moreover have "fetches (issued ?h (snd (onKeyUp (example_runtime (Parsed JNull)) ?h))) =
     [\<lparr>req_url = ''http://homeassistant.local:8123/api/services/light/turn_on'',
       req_method = ''POST'',
       req_headers = [(''Authorization'', ''Bearer secret''),
                      (''Content-Type'', ''application/json'')],
       req_body = \<lparr>entity_id = Some ''kitchen'', rgb_color = Some JNull\<rparr>\<rparr>,
      \<lparr>req_url = ''http://homeassistant.local:8123/api/services/light/turn_on'',
       req_method = ''POST'',
       req_headers = [(''Authorization'', ''Bearer secret''),
                      (''Content-Type'', ''application/json'')],
       req_body = \<lparr>entity_id = Some '' '', rgb_color = Some JNull\<rparr>\<rparr>,
      \<lparr>req_url = ''http://homeassistant.local:8123/api/services/light/turn_on'',
       req_method = ''POST'',
       req_headers = [(''Authorization'', ''Bearer secret''),
                      (''Content-Type'', ''application/json'')],
       req_body = \<lparr>entity_id = Some ''bedroom'', rgb_color = Some JNull\<rparr>\<rparr>]"
    using null by (simp add: example_pick u split_kitchen_bedroom)
  moreover have "fst (onKeyUp (example_runtime (Parsed JNull)) ?h) = Rejected TypeError"
    and "stored (snd (onKeyUp (example_runtime (Parsed JNull)) ?h)) =
      example_settings\<lparr>isDown := False\<rparr>"
    using null by (simp_all add: example_pick example_stored)
  moreover have "colorRgb (stored (snd (onKeyUp (example_runtime (Parsed ?c)) ?h))) = Some ?c"
    and "colorHex (stored (snd (onKeyUp (example_runtime (Parsed ?c)) ?h))) = ''#2C0000''"
  proof -
    have p: "pick (example_runtime (Parsed ?c)) = Parsed (JArr (map JNum [300, 0, 0]))"
      by (simp add: example_pick)
    have hex: "hex_of_color (example_runtime (Parsed ?c)) (JArr (map JNum [300, 0, 0])) =
        Inr ''#2C0000''"
      using hex_of_color_integers [of "example_runtime (Parsed ?c)" "[300, 0, 0]"]
      by (simp add: hex_eval)
    from triple p have
      "colorRgb (stored (snd (onKeyUp (example_runtime (Parsed ?c)) ?h))) =
         Some (JArr (map JNum [300, 0, 0])) \<and>
       hex_of_color (example_runtime (Parsed ?c)) (JArr (map JNum [300, 0, 0])) =
         Inr (colorHex (stored (snd (onKeyUp (example_runtime (Parsed ?c)) ?h))))"
      by blast
    with hex show "colorRgb (stored (snd (onKeyUp (example_runtime (Parsed ?c)) ?h))) = Some ?c"
      and "colorHex (stored (snd (onKeyUp (example_runtime (Parsed ?c)) ?h))) = ''#2C0000''"
      by simp_all
  qed
  ultimately show ?thesis using short by blast
qed

subsection \<open>The hex string of a valid colour\<close>

text \<open>
  C4. For channels \<open>r\<close>, \<open>g\<close>, \<open>b\<close> from 0 to 255 the hex string of the short-press path is
  \<open>#\<close> followed by the two-digit uppercase hexadecimal forms of \<open>r\<close>, \<open>g\<close> and \<open>b\<close>.
\<close>

theorem hex_of_color_spec:
  "channel r \<Longrightarrow> channel g \<Longrightarrow> channel b \<Longrightarrow>
   hex_of_color rt (JArr [JNum r, JNum g, JNum b]) = Inr (spec_hex r g b)"
  by (rule hex_of_color_channels)

text \<open>The colour \<open>(255, 0, 128)\<close> gives \<open>#FF0080\<close>.\<close>

theorem hex_of_color_spec_witness:
  "channel 255 \<and> channel 0 \<and> channel 128 \<and>
   hex_of_color (example_runtime ParseFailed) (JArr [JNum 255, JNum 0, JNum 128]) =
     Inr ''#FF0080''"
  using hex_of_color_spec [of 255 0 128 "example_runtime ParseFailed"]
  by (simp add: channel_def spec_hex_def two_digit_hex_def upper_hex_digit_def)

subsection \<open>Colour and hex string in the settings\<close>

text \<open>
  C5, as stated, fails: the picker prints \<open>[0, 0, 300]\<close>; the second write of \<open>onKeyUp\<close>
  changes the colour and stores the hex string \<open>#00012C\<close>, which the formula of the
  specification does not give for that array.
\<close>

theorem settings_writes_counterexample:
  "writes (issued (example_host example_settings)
             (snd (onKeyUp (example_runtime (Parsed (JArr [JNum 0, JNum 0, JNum 300])))
                     (example_host example_settings)))) =
     [example_settings\<lparr>isDown := False\<rparr>,
      example_settings\<lparr>isDown := False, colorHex := ''#00012C'', longPress := False,
                       colorRgb := Some (JArr [JNum 0, JNum 0, JNum 300])\<rparr>] \<and>
   \<not> same_colors (example_settings\<lparr>isDown := False, colorHex := ''#00012C'', longPress := False,
                                   colorRgb := Some (JArr [JNum 0, JNum 0, JNum 300])\<rparr>)
                   example_settings \<and>
   \<not> hex_derivable (example_settings\<lparr>isDown := False, colorHex := ''#00012C'', longPress := False,
                                     colorRgb := Some (JArr [JNum 0, JNum 0, JNum 300])\<rparr>)"
proof -
  have "hex_of_color rt (JArr [JNum 0, JNum 0, JNum 300]) = Inr ''#00012C''" for rt
    using hex_of_color_integers [of rt "[0, 0, 300]"] by (simp add: hex_eval)
  then show ?thesis
    by (simp add: writes_onKeyUp example_stored example_pick example_short same_colors_def
        hex_derivable_def channel_def)
      (simp add: example_settings_def)
qed

text \<open>
  C5, amended. Every settings write of \<open>onKeyDown\<close> and \<open>onKeyUp\<close> either leaves \<open>colorHex\<close> and
  \<open>colorRgb\<close> as the handler read them, or sets \<open>colorHex\<close> to the value of the handler's
  shift-and-add expression on the new \<open>colorRgb\<close>; that value is the one of the stated
  formula whenever the picked colour is a triple of integers from 0 to 255.
\<close>

theorem settings_writes_colors:
  "(\<forall>w \<in> set (writes (issued h (onKeyDown_begin h))). same_colors w (stored h)) \<and>
   (\<forall>w \<in> set (writes (issued h (snd (onKeyDown_timer rt h)))). same_colors w (stored h)) \<and>
   (\<forall>w \<in> set (writes (issued h (snd (onKeyUp rt h)))).
      same_colors w (stored h) \<or>
      (hex_computed rt w \<and> (valid_pick (pick rt) \<longrightarrow> hex_derivable w)))"
proof (intro conjI)
  show "\<forall>w \<in> set (writes (issued h (onKeyDown_begin h))). same_colors w (stored h)"
    by (simp add: writes_onKeyDown_begin same_colors_def)
  show "\<forall>w \<in> set (writes (issued h (snd (onKeyDown_timer rt h)))). same_colors w (stored h)"
    by (simp add: writes_onKeyDown_timer same_colors_def)
  show "\<forall>w \<in> set (writes (issued h (snd (onKeyUp rt h)))).
      same_colors w (stored h) \<or>
      (hex_computed rt w \<and> (valid_pick (pick rt) \<longrightarrow> hex_derivable w))"
  proof (cases "pick rt")
    case (Parsed c)
    show ?thesis
    proof (cases "hex_of_color rt c")
      case (Inl e)
      with Parsed show ?thesis
        by (simp add: writes_onKeyUp same_colors_def)
    next
      case (Inr hex)
      have "valid_rgb c \<Longrightarrow>
          hex_derivable ((stored h)\<lparr>isDown := False, colorHex := hex,
                                    longPress := False, colorRgb := Some c\<rparr>)"
        by (rule valid_rgb_derivable [where c = c and rt = rt]) (simp_all add: Inr)
      then show ?thesis
        using Parsed Inr by (simp add: writes_onKeyUp same_colors_def hex_computed_def)
    qed
  qed (simp_all add: writes_onKeyUp same_colors_def)
qed

text \<open>A short press that picks \<open>(1, 2, 3)\<close>: the write that changes the colour stores \<open>#010203\<close>.\<close>

theorem settings_writes_colors_witness:
  "valid_pick (pick (example_runtime (Parsed (JArr [JNum 1, JNum 2, JNum 3])))) \<and>
   example_settings\<lparr>isDown := False, colorHex := ''#010203'', longPress := False,
                    colorRgb := Some (JArr [JNum 1, JNum 2, JNum 3])\<rparr>
     \<in> set (writes (issued (example_host example_settings)
               (snd (onKeyUp (example_runtime (Parsed (JArr [JNum 1, JNum 2, JNum 3])))
                       (example_host example_settings))))) \<and>
   \<not> same_colors (example_settings\<lparr>isDown := False, colorHex := ''#010203'', longPress := False,
                                   colorRgb := Some (JArr [JNum 1, JNum 2, JNum 3])\<rparr>)
                   (stored (example_host example_settings)) \<and>
   hex_computed (example_runtime (Parsed (JArr [JNum 1, JNum 2, JNum 3])))
     (example_settings\<lparr>isDown := False, colorHex := ''#010203'', longPress := False,
                       colorRgb := Some (JArr [JNum 1, JNum 2, JNum 3])\<rparr>) \<and>
   hex_derivable (example_settings\<lparr>isDown := False, colorHex := ''#010203'', longPress := False,
                                   colorRgb := Some (JArr [JNum 1, JNum 2, JNum 3])\<rparr>)"
proof -
  let ?w = "example_settings\<lparr>isDown := False, colorHex := ''#010203'', longPress := False,
                             colorRgb := Some (JArr [JNum 1, JNum 2, JNum 3])\<rparr>"
  let ?rt = "example_runtime (Parsed (JArr [JNum 1, JNum 2, JNum 3]))"
  let ?h = "example_host example_settings"
  have hex: "hex_of_color ?rt (JArr [JNum 1, JNum 2, JNum 3]) = Inr ''#010203''"
    using hex_of_color_integers [of ?rt "[1, 2, 3]"] by (simp add: hex_eval)
  have valid: "valid_pick (pick ?rt)"
    by (simp add: example_pick valid_rgb_def channel_def)
  have mem: "?w \<in> set (writes (issued ?h (snd (onKeyUp ?rt ?h))))"
    by (simp add: writes_onKeyUp example_stored example_pick example_short hex)
  have changed: "\<not> same_colors ?w (stored ?h)"
    by (simp add: same_colors_def example_eval)
  from settings_writes_colors [of ?h ?rt] mem
  have "same_colors ?w (stored ?h) \<or>
      (hex_computed ?rt ?w \<and> (valid_pick (pick ?rt) \<longrightarrow> hex_derivable ?w))"
    by blast
  with changed valid have "hex_computed ?rt ?w \<and> hex_derivable ?w"
    by blast
  with valid mem changed show ?thesis
    by blast
qed

subsection \<open>The timer of onKeyDown\<close>

text \<open>
  C6. If the settings read when the timer fires have \<open>isDown = false\<close>, \<open>onKeyDown\<close> does
  nothing more: the host is as it was when the timer fired, with no further write and no
  request.
\<close>

theorem onKeyDown_released:
  "\<not> isDown (stored (during (onKeyDown_begin h))) \<Longrightarrow>
   onKeyDown rt during h = (Resolved, during (onKeyDown_begin h))"
  by (simp add: onKeyDown_def onKeyDown_timer_up)

text \<open>
  The key is released while the timer runs: \<open>onKeyUp\<close> (whose picker prints no JSON) is
  served in between.
\<close>

theorem onKeyDown_released_witness:
  "\<not> isDown (stored (snd (onKeyUp (example_runtime ParseFailed)
                              (onKeyDown_begin (example_host example_settings))))) \<and>
   onKeyDown (example_runtime ParseFailed) (\<lambda>h. snd (onKeyUp (example_runtime ParseFailed) h))
       (example_host example_settings) =
     (Resolved,
      \<lparr>stored = example_settings\<lparr>isDown := False\<rparr>,
       trace = [SetSettings (example_settings\<lparr>isDown := True\<rparr>),
                SetSettings (example_settings\<lparr>isDown := False\<rparr>),
                ExecFile ''pick-color.exe''],
       console = []\<rparr>)"
proof -
  have up: "snd (onKeyUp (example_runtime ParseFailed)
                   (onKeyDown_begin (example_host example_settings))) =
     \<lparr>stored = example_settings\<lparr>isDown := False\<rparr>,
      trace = [SetSettings (example_settings\<lparr>isDown := True\<rparr>),
               SetSettings (example_settings\<lparr>isDown := False\<rparr>),
               ExecFile ''pick-color.exe''],
      console = []\<rparr>"
    by (simp add: onKeyUp_failed onKeyDown_begin_eq example_eval)
  have released: "\<not> isDown (stored (snd (onKeyUp (example_runtime ParseFailed)
                              (onKeyDown_begin (example_host example_settings)))))"
    by (simp add: up)
  show ?thesis
    using released
      onKeyDown_released [of "\<lambda>h. snd (onKeyUp (example_runtime ParseFailed) h)"
        "example_host example_settings" "example_runtime ParseFailed", OF released]
    by (simp add: up)
qed

text \<open>
  C7. If the settings read when the timer fires have \<open>isDown = true\<close>, \<open>onKeyDown\<close> persists
  them with \<open>longPress = true\<close> and calls \<open>changeLampColor\<close> once, with the \<open>colorRgb\<close> of those
  settings: after the write come the requests of that one call and nothing else, each a
  POST to \<open>url + "/api/services/light/turn_on"\<close> with the bearer token, one element of the
  split \<open>lights\<close> string as \<open>entity_id\<close> and the stored \<open>colorRgb\<close> as \<open>rgb_color\<close>; for a
  \<open>lights\<close> string without a comma that is one request, for the whole string. The picker is
  not started.
\<close>

theorem onKeyDown_long_press:
  assumes "isDown (stored (during (onKeyDown_begin h)))"
  shows "fst (onKeyDown rt during h) = Resolved \<and>
     stored (snd (onKeyDown rt during h)) =
       (stored (during (onKeyDown_begin h)))\<lparr>longPress := True\<rparr> \<and>
     issued (during (onKeyDown_begin h)) (snd (onKeyDown rt during h)) =
       SetSettings ((stored (during (onKeyDown_begin h)))\<lparr>longPress := True\<rparr>) #
       map (\<lambda>light.
              Fetch \<lparr>req_url = url (stored (during (onKeyDown_begin h))) @
                               ''/api/services/light/turn_on'',
                     req_method = ''POST'',
                     req_headers =
                       [(''Authorization'',
                         ''Bearer '' @ token (stored (during (onKeyDown_begin h)))),
                        (''Content-Type'', ''application/json'')],
                     req_body =
                       \<lparr>entity_id = light,
                        rgb_color = colorRgb (stored (during (onKeyDown_begin h)))\<rparr>\<rparr>)
           (split_lights (lights (stored (during (onKeyDown_begin h))))) \<and>
     (CHR '','' \<notin> set (lights (stored (during (onKeyDown_begin h)))) \<longrightarrow>
        fetches (issued (during (onKeyDown_begin h)) (snd (onKeyDown rt during h))) =
          [\<lparr>req_url = url (stored (during (onKeyDown_begin h))) @
                        ''/api/services/light/turn_on'',
            req_method = ''POST'',
            req_headers =
              [(''Authorization'', ''Bearer '' @ token (stored (during (onKeyDown_begin h)))),
               (''Content-Type'', ''application/json'')],
            req_body =
              \<lparr>entity_id = Some (lights (stored (during (onKeyDown_begin h)))),
               rgb_color = colorRgb (stored (during (onKeyDown_begin h)))\<rparr>\<rparr>]) \<and>
     ExecFile ''pick-color.exe'' \<notin>
       set (issued (during (onKeyDown_begin h)) (snd (onKeyDown rt during h)))"
proof -
  define h1 where "h1 = during (onKeyDown_begin h)"
  define s1 where "s1 = stored h1"
  have run: "onKeyDown rt during h =
      (Resolved, changeLampColor rt (colorRgb s1) s1 (setSettings (s1\<lparr>longPress := True\<rparr>) h1))"
    using assms by (simp add: onKeyDown_def onKeyDown_timer_down h1_def s1_def)
  have tr: "trace (snd (onKeyDown rt during h)) =
      trace h1 @ SetSettings (s1\<lparr>longPress := True\<rparr>) #
        map (\<lambda>light. Fetch (light_request (colorRgb s1) s1 light)) (split_lights (lights s1))"
    by (simp add: run trace_changeLampColor setSettings_def)
  have iss: "issued h1 (snd (onKeyDown rt during h)) =
      SetSettings (s1\<lparr>longPress := True\<rparr>) #
        map (\<lambda>light. Fetch (light_request (colorRgb s1) s1 light)) (split_lights (lights s1))"
    using tr by (rule issued_append)
  have st: "stored (snd (onKeyDown rt during h)) = s1\<lparr>longPress := True\<rparr>"
    by (simp add: run stored_changeLampColor setSettings_def)
  have no_pick: "ExecFile ''pick-color.exe'' \<notin> set (issued h1 (snd (onKeyDown rt during h)))"
    by (auto simp add: iss)
  have one: "fetches (issued h1 (snd (onKeyDown rt during h))) =
      [light_request (colorRgb s1) s1 (Some (lights s1))]"
    if "CHR '','' \<notin> set (lights s1)"
    using that by (simp add: iss fetches_fetches split_lights_plain)
  show ?thesis
    using st no_pick one iss
    by (simp add: run light_request_def h1_def [symmetric] s1_def [symmetric])
qed

text \<open>
  The key is still down when the timer fires, with the sample settings; and with one
  light, \<open>lights = "kitchen"\<close>.
\<close>

theorem onKeyDown_long_press_witness:
  "isDown (stored (id (onKeyDown_begin (example_host example_settings)))) \<and>
   stored (snd (onKeyDown (example_runtime ParseFailed) id (example_host example_settings))) =
     example_settings\<lparr>isDown := True, longPress := True\<rparr> \<and>
   issued (onKeyDown_begin (example_host example_settings))
          (snd (onKeyDown (example_runtime ParseFailed) id (example_host example_settings))) =
     [SetSettings (example_settings\<lparr>isDown := True, longPress := True\<rparr>),
      Fetch \<lparr>req_url = ''http://homeassistant.local:8123/api/services/light/turn_on'',
             req_method = ''POST'',
             req_headers = [(''Authorization'', ''Bearer secret''),
                            (''Content-Type'', ''application/json'')],
             req_body = \<lparr>entity_id = Some ''kitchen'',
                         rgb_color = Some (JArr [JNum 255, JNum 0, JNum 128])\<rparr>\<rparr>,
      Fetch \<lparr>req_url = ''http://homeassistant.local:8123/api/services/light/turn_on'',
             req_method = ''POST'',
             req_headers = [(''Authorization'', ''Bearer secret''),
                            (''Content-Type'', ''application/json'')],
             req_body = \<lparr>entity_id = Some '' '',
                         rgb_color = Some (JArr [JNum 255, JNum 0, JNum 128])\<rparr>\<rparr>,
      Fetch \<lparr>req_url = ''http://homeassistant.local:8123/api/services/light/turn_on'',
             req_method = ''POST'',
             req_headers = [(''Authorization'', ''Bearer secret''),
                            (''Content-Type'', ''application/json'')],
             req_body = \<lparr>entity_id = Some ''bedroom'',
                         rgb_color = Some (JArr [JNum 255, JNum 0, JNum 128])\<rparr>\<rparr>] \<and>
   fetches (issued (onKeyDown_begin (example_host (example_settings\<lparr>lights := ''kitchen''\<rparr>)))
             (snd (onKeyDown (example_runtime ParseFailed) id
                     (example_host (example_settings\<lparr>lights := ''kitchen''\<rparr>))))) =
     [\<lparr>req_url = ''http://homeassistant.local:8123/api/services/light/turn_on'',
       req_method = ''POST'',
       req_headers = [(''Authorization'', ''Bearer secret''),
                      (''Content-Type'', ''application/json'')],
       req_body = \<lparr>entity_id = Some ''kitchen'',
                   rgb_color = Some (JArr [JNum 255, JNum 0, JNum 128])\<rparr>\<rparr>]"
proof -
  have down: "isDown (stored (id (onKeyDown_begin (example_host s))))" for s
    by (simp add: onKeyDown_begin_eq example_host_def)
  have st: "stored (onKeyDown_begin (example_host s)) = s\<lparr>isDown := True\<rparr>" for s
    by (simp add: onKeyDown_begin_eq example_host_def)
  have f: "lights example_settings = ''kitchen, bedroom''"
    "colorRgb example_settings = Some (JArr [JNum 255, JNum 0, JNum 128])"
    "url example_settings = ''http://homeassistant.local:8123''"
    "token example_settings = ''secret''"
    by (simp_all add: example_settings_def)
  note three = onKeyDown_long_press [of id "example_host example_settings"
      "example_runtime ParseFailed", OF down]
  note single = onKeyDown_long_press [of id "example_host (example_settings\<lparr>lights := ''kitchen''\<rparr>)"
      "example_runtime ParseFailed", OF down]
  have "stored (snd (onKeyDown (example_runtime ParseFailed) id (example_host example_settings))) =
     example_settings\<lparr>isDown := True, longPress := True\<rparr>"
    using three by (simp add: st)
  moreover have "issued (onKeyDown_begin (example_host example_settings))
          (snd (onKeyDown (example_runtime ParseFailed) id (example_host example_settings))) =
     [SetSettings (example_settings\<lparr>isDown := True, longPress := True\<rparr>),
      Fetch \<lparr>req_url = ''http://homeassistant.local:8123/api/services/light/turn_on'',
             req_method = ''POST'',
             req_headers = [(''Authorization'', ''Bearer secret''),
                            (''Content-Type'', ''application/json'')],
             req_body = \<lparr>entity_id = Some ''kitchen'',
                         rgb_color = Some (JArr [JNum 255, JNum 0, JNum 128])\<rparr>\<rparr>,
      Fetch \<lparr>req_url = ''http://homeassistant.local:8123/api/services/light/turn_on'',
             req_method = ''POST'',
             req_headers = [(''Authorization'', ''Bearer secret''),
                            (''Content-Type'', ''application/json'')],
             req_body = \<lparr>entity_id = Some '' '',
                         rgb_color = Some (JArr [JNum 255, JNum 0, JNum 128])\<rparr>\<rparr>,
      Fetch \<lparr>req_url = ''http://homeassistant.local:8123/api/services/light/turn_on'',
             req_method = ''POST'',
             req_headers = [(''Authorization'', ''Bearer secret''),
                            (''Content-Type'', ''application/json'')],
             req_body = \<lparr>entity_id = Some ''bedroom'',
                         rgb_color = Some (JArr [JNum 255, JNum 0, JNum 128])\<rparr>\<rparr>]"
    using three by (simp add: st f split_kitchen_bedroom)
  moreover have
    "fetches (issued (onKeyDown_begin (example_host (example_settings\<lparr>lights := ''kitchen''\<rparr>)))
             (snd (onKeyDown (example_runtime ParseFailed) id
                     (example_host (example_settings\<lparr>lights := ''kitchen''\<rparr>))))) =
     [\<lparr>req_url = ''http://homeassistant.local:8123/api/services/light/turn_on'',
       req_method = ''POST'',
       req_headers = [(''Authorization'', ''Bearer secret''),
                      (''Content-Type'', ''application/json'')],
       req_body = \<lparr>entity_id = Some ''kitchen'',
                   rgb_color = Some (JArr [JNum 255, JNum 0, JNum 128])\<rparr>\<rparr>]"
    using single [THEN conjunct2, THEN conjunct2, THEN conjunct2, THEN conjunct1]
    by (simp add: st f)
  ultimately show ?thesis using down [of example_settings] by blast
qed

subsection \<open>The thumbnail\<close>

lemma pixel_solid:
  assumes "x < w" "y < h"
  shows "pixel (solid w h r g b) x y = (uint r, uint g, uint b, 255)"
proof -
  define k where "k = w * y + x"
  have "k < w * Suc y" using assms(1) by (simp add: k_def)
  also have "\<dots> \<le> w * h" using assms(2) by (intro mult_le_mono2) simp
  finally have k: "4 * k + 3 < 4 * (w * h)" by simp
  have at: "concat (replicate (w * h) [r, g, b, 255]) ! (4 * k + m) = [r, g, b, 255] ! m"
    if "m < 4" for m
  proof -
    have "4 * k + m < length [r, g, b, 255] * (w * h)" using k that by simp
    then have "concat (replicate (w * h) [r, g, b, 255]) ! (4 * k + m) =
        [r, g, b, 255] ! ((4 * k + m) mod length [r, g, b, 255])"
      by (rule nth_concat_replicate)
    also have "(4 * k + m) mod length [r, g, b, 255] = m" using that by simp
    finally show ?thesis .
  qed
  have "concat (replicate (w * h) [r, g, b, 255]) ! (4 * k) = r"
    using at [of 0] by simp
  moreover have "concat (replicate (w * h) [r, g, b, 255]) ! (4 * k + 1) = g"
    using at [of 1] by simp
  moreover have "concat (replicate (w * h) [r, g, b, 255]) ! (4 * k + 2) = b"
    using at [of 2] by simp
  moreover have "concat (replicate (w * h) [r, g, b, 255]) ! (4 * k + 3) = 255"
    using at [of 3] by simp
  ultimately show ?thesis
    unfolding pixel_def solid_def Let_def k_def by simp
qed

lemma raw_text_inverse: "map (\<lambda>c. (of_nat (of_char c) :: 8 word)) (raw_text bs) = bs"
proof -
  have "(of_nat (of_char (char_of (unat w))) :: 8 word) = w" for w :: "8 word"
  proof -
    have "unat w < 2 ^ LENGTH(8)" by (rule unsigned_less)
    then have "unat w mod 256 = unat w" by simp
    then show ?thesis by simp
  qed
  then show ?thesis by (simp add: raw_text_def comp_def)
qed

lemma takeWhile_unary:
  "takeWhile (\<lambda>x. x \<noteq> 0) (replicate n (1 :: 8 word) @ 0 # rest) = replicate n 1"
  by (induction n) simp_all

lemma raw_read_write:
  "raw_read (''data:image/png;base64,'' @ raw_text (raw_write p)) = Some p"
proof -
  have d: "drop 22 (''data:image/png;base64,'' @ raw_text (raw_write p)) = raw_text (raw_write p)"
    by simp
  have w: "raw_write p = replicate (width p) 1 @ 0 # (replicate (height p) 1 @ 0 # data p)"
    by (simp add: raw_write_def)
  show ?thesis
    unfolding raw_read_def d raw_text_inverse Let_def
    by (simp add: w takeWhile_unary)
qed

text \<open>
  C9. The image behind the data URL of \<open>createPngBase64\<close> is the encoding, by the PNG
  writer and the base64 conversion of the runtime, of the 128 by 128 bitmap whose every
  pixel is the given colour with alpha 255; the text depends on the colour alone, so two
  calls with one colour give the same bytes. For any decoder that returns what the writer
  was given, decoding the result yields that bitmap.
\<close>

theorem createPngBase64_roundtrip:
  assumes "channel r" "channel g" "channel b"
    and decode: "\<And>p. length (data p) = 4 * (width p * height p) \<Longrightarrow>
      decode (''data:image/png;base64,'' @ base64 rt (png_write rt p)) = Some p"
  shows "createPngBase64 rt (JArr [JNum r, JNum g, JNum b]) =
       Inr (''data:image/png;base64,'' @
         base64 rt (png_write rt (solid 128 128 (word_of_int r) (word_of_int g) (word_of_int b)))) \<and>
     (\<exists>img p. createPngBase64 rt (JArr [JNum r, JNum g, JNum b]) = Inr img \<and>
          decode img = Some p \<and> width p = 128 \<and> height p = 128 \<and>
          (\<forall>x<128. \<forall>y<128. pixel p x y = (r, g, b, 255)))"
proof -
  let ?p = "solid 128 128 (word_of_int r) (word_of_int g) (word_of_int b)"
  let ?img = "''data:image/png;base64,'' @ base64 rt (png_write rt ?p)"
  have eq: "createPngBase64 rt (JArr [JNum r, JNum g, JNum b]) = Inr ?img"
    using assms(1-3) by (rule createPngBase64_eq)
  have len: "length (data ?p) = 4 * (width ?p * height ?p)"
    by (simp add: solid_def length_concat_replicate)
  have dec: "decode ?img = Some ?p"
    using len by (rule decode)
  have pix: "pixel ?p x y = (r, g, b, 255)" if "x < 128" "y < 128" for x y
    using that assms(1-3) by (simp add: pixel_solid uint_channel)
  have "width ?p = 128" "height ?p = 128"
    by (simp_all add: solid_def)
  with eq dec pix show ?thesis
    by blast
qed

text \<open>The colour \<open>(255, 0, 128)\<close> with the stand-in codec: the first and the last pixel.\<close>

theorem createPngBase64_roundtrip_witness:
  "channel 255 \<and> channel 0 \<and> channel 128 \<and>
   (\<exists>img p. createPngBase64 (example_runtime ParseFailed) (JArr [JNum 255, JNum 0, JNum 128]) =
               Inr img \<and>
        raw_read img = Some p \<and> width p = 128 \<and> height p = 128 \<and>
        pixel p 0 0 = (255, 0, 128, 255) \<and> pixel p 127 127 = (255, 0, 128, 255))"
proof -
  have c: "channel 255" "channel 0" "channel 128"
    by (simp_all add: channel_def)
  have d: "raw_read (''data:image/png;base64,'' @
        base64 (example_runtime ParseFailed) (png_write (example_runtime ParseFailed) p)) = Some p"
    for p
    using raw_read_write [of p] by (simp add: example_runtime_def)
  from createPngBase64_roundtrip [of 255 0 128 raw_read "example_runtime ParseFailed", OF c d]
  obtain img p where p:
    "createPngBase64 (example_runtime ParseFailed) (JArr [JNum 255, JNum 0, JNum 128]) = Inr img"
    "raw_read img = Some p"
    "width p = 128" "height p = 128" "\<forall>x<128. \<forall>y<128. pixel p x y = (255, 0, 128, 255)"
    by blast
  from p(5) have "pixel p 0 0 = (255, 0, 128, 255)" "pixel p 127 127 = (255, 0, 128, 255)"
    by simp_all
  with c p(1-4) show ?thesis by blast
qed

subsection \<open>The title\<close>

text \<open>
  C10. \<open>setTitle\<close> passes \<open>colorHex\<close> when \<open>showValue\<close> is \<open>hex\<close> and \<open>colorHex\<close> is not empty,
  \<open>colorRgb.toString()\<close> when \<open>showValue\<close> is \<open>rgb\<close> and \<open>colorRgb\<close> is present, and the text
  \<open>Color\<newline>Picker\<close> (on two lines) in every other case. For a \<open>colorRgb\<close> that is an array of
  integers, as the type of the settings declares it, \<open>toString()\<close> is the decimal numbers
  joined by commas; for any other stored value that passes the test \<open>if (settings.colorRgb)\<close>
  it is what \<open>toString()\<close> of that value returns or throws.
\<close>

theorem setTitle_cases:
  "(showValue s = ''hex'' \<and> colorHex s \<noteq> [] \<longrightarrow> setTitle s change = Inr (change (colorHex s))) \<and>
   (showValue s = ''rgb'' \<and> colorRgb s = Some (JArr (map JNum c)) \<longrightarrow>
      setTitle s change = Inr (change (array_toString c))) \<and>
   (showValue s = ''rgb'' \<and> colorRgb s = Some v \<and> truthy (Some v) \<longrightarrow>
      setTitle s change =
        (case js_toString v of Inl e \<Rightarrow> Inl e | Inr t \<Rightarrow> Inr (change t))) \<and>
   (\<not> (showValue s = ''hex'' \<and> colorHex s \<noteq> []) \<and>
    \<not> (showValue s = ''rgb'' \<and> truthy (colorRgb s)) \<longrightarrow>
      setTitle s change = Inr (change ''Color\<newline>Picker''))"
  by (auto simp add: setTitle_def and_then_def truthy_def join_elements_integers
      array_toString_def)

text \<open>The cases at sample settings, with an empty \<open>colorHex\<close> and with an absent \<open>colorRgb\<close>.\<close>

theorem setTitle_cases_witness:
  "setTitle example_settings id = Inr ''#FF0080'' \<and>
   setTitle (example_settings\<lparr>showValue := ''rgb''\<rparr>) id = Inr ''255,0,128'' \<and>
   setTitle (example_settings\<lparr>showValue := ''none''\<rparr>) id = Inr ''Color\<newline>Picker'' \<and>
   setTitle (example_settings\<lparr>colorHex := []\<rparr>) id = Inr ''Color\<newline>Picker'' \<and>
   setTitle (example_settings\<lparr>showValue := ''rgb'', colorRgb := None\<rparr>) id =
     Inr ''Color\<newline>Picker''"
proof -
  have str: "array_toString [255, 0, 128] = ''255,0,128''"
    by (simp add: array_toString_def number_toString_def digits.simps digit_char_def)
  have col: "colorRgb example_settings = Some (JArr (map JNum [255, 0, 128]))"
    by (simp add: example_settings_def)
  have "setTitle example_settings id = Inr ''#FF0080''"
    using setTitle_cases [where s = example_settings and change = id]
    by (simp add: example_settings_def)
  moreover have "setTitle (example_settings\<lparr>showValue := ''rgb''\<rparr>) id = Inr ''255,0,128''"
    using setTitle_cases [where s = "example_settings\<lparr>showValue := ''rgb''\<rparr>" and change = id
        and c = "[255, 0, 128]"] col
    by (simp add: str)
  moreover have "setTitle (example_settings\<lparr>showValue := ''none''\<rparr>) id =
      Inr ''Color\<newline>Picker''"
    using setTitle_cases [where s = "example_settings\<lparr>showValue := ''none''\<rparr>" and change = id]
    by simp
  moreover have "setTitle (example_settings\<lparr>colorHex := []\<rparr>) id = Inr ''Color\<newline>Picker''"
    using setTitle_cases [where s = "example_settings\<lparr>colorHex := []\<rparr>" and change = id]
    by (simp add: example_settings_def)
  moreover have "setTitle (example_settings\<lparr>showValue := ''rgb'', colorRgb := None\<rparr>) id =
      Inr ''Color\<newline>Picker''"
    using setTitle_cases [where s = "example_settings\<lparr>showValue := ''rgb'', colorRgb := None\<rparr>"
        and change = id]
    by (simp add: truthy_def)
  ultimately show ?thesis by blast
qed

end
